theory Spec2Isabelle
  imports Complex_Main "HOL-Library.AList"
begin

chapter \<open>The model\<close>

text \<open>
  A shallow embedding of the orchestration core of the commerce chatbot: the health
  monitor, the retry wrapper and the TTL cache of the tool server, and the tool
  execution and turn handling of the chat service. Asynchronous calls are sequential
  in the source (every call is awaited), so they are modelled as ordinary function
  application with the outside world passed explicitly.
\<close>

section \<open>Health monitor (utils/healthMonitor)\<close>

text \<open>
  The monitor keeps four counters and a status snapshot. The rates are JavaScript
  numbers obtained by one division of two counters; they are modelled as exact
  reals. The counters are natural numbers (they start at 0 and are only incremented
  or reset).
\<close>

datatype health = Healthy | Degraded | Unhealthy

record HealthDetails =
  apiLatency :: "real option"
  errorRate :: "real option"
  cacheHitRate :: "real option"

record HealthStatus =
  status :: health
  lastCheck :: int
  details :: HealthDetails

record HealthMonitor =
  hm_status :: HealthStatus
  errorCount :: nat
  requestCount :: nat
  cacheHits :: nat
  cacheMisses :: nat

definition determineStatus :: "real \<Rightarrow> real \<Rightarrow> health" where
  "determineStatus eRate cRate =
     (if eRate \<ge> 1 / 10 \<or> cRate < 3 / 10 then Unhealthy
      else if eRate \<ge> 5 / 100 \<or> cRate < 5 / 10 then Degraded
      else Healthy)"

text \<open>\<open>checkHealth\<close> at wall-clock time \<open>now\<close>: compute both rates, store the
  new snapshot (keeping the last recorded latency), reset the four counters.\<close>

definition checkHealth :: "int \<Rightarrow> HealthMonitor \<Rightarrow> HealthMonitor" where
  "checkHealth now m =
     (let eRate = (if requestCount m > 0 then real (errorCount m) / real (requestCount m) else 0);
          cRate = (if cacheHits m + cacheMisses m > 0
                   then real (cacheHits m) / real (cacheHits m + cacheMisses m)
                   else 1)
      in \<lparr> hm_status =
             \<lparr> status = determineStatus eRate cRate,
               lastCheck = now,
               details = \<lparr> apiLatency = apiLatency (details (hm_status m)),
                           errorRate = Some eRate,
                           cacheHitRate = Some cRate \<rparr> \<rparr>,
           errorCount = 0,
           requestCount = 0,
           cacheHits = 0,
           cacheMisses = 0 \<rparr>)"

definition recordRequestComplete :: "real \<Rightarrow> bool \<Rightarrow> HealthMonitor \<Rightarrow> HealthMonitor" where
  "recordRequestComplete latencyMs hasError m =
     m \<lparr> requestCount := requestCount m + 1,
         errorCount := (if hasError then errorCount m + 1 else errorCount m),
         hm_status := (hm_status m)
            \<lparr> details := (details (hm_status m)) \<lparr> apiLatency := Some latencyMs \<rparr> \<rparr> \<rparr>"

definition recordCacheAccess :: "bool \<Rightarrow> HealthMonitor \<Rightarrow> HealthMonitor" where
  "recordCacheAccess hit m =
     (if hit then m \<lparr> cacheHits := cacheHits m + 1 \<rparr>
      else m \<lparr> cacheMisses := cacheMisses m + 1 \<rparr>)"

definition newHealthMonitor :: "int \<Rightarrow> HealthMonitor" where
  "newHealthMonitor now =
     \<lparr> hm_status = \<lparr> status = Healthy, lastCheck = now,
                     details = \<lparr> apiLatency = None, errorRate = None, cacheHitRate = None \<rparr> \<rparr>,
       errorCount = 0, requestCount = 0, cacheHits = 0, cacheMisses = 0 \<rparr>"

section \<open>Resilient call wrapper (utils/retryUtils)\<close>

text \<open>
  An operation is a closure that may behave differently on every invocation; it is
  modelled by the outcome of its \<open>n\<close>-th invocation. A failure is either an Axios
  error, carrying \<open>error.response?.status\<close>, or any other error. \<open>withRetry\<close> only
  ever throws a \<open>RetryError\<close>: \<open>OperationFailedAfter k e\<close> is the error with message
  "Operation failed after k attempts" and cause \<open>e\<close>. The run records the delays passed
  to \<open>setTimeout\<close> and the number of invocations. Delays and factors are integers, as
  in every configuration of the repository. A field of the caller's configuration is
  \<open>None\<close> when the property is absent, and the default then applies.
\<close>

datatype failure = AxiosError "int option" | OtherError string

datatype RetryError = OperationFailedAfter int failure | UnexpectedRetryFailure

record RetryConfig =
  maxRetries_opt :: "int option"
  initialDelay_opt :: "int option"
  maxDelay_opt :: "int option"
  backoffFactor_opt :: "int option"
  retryableStatuses_opt :: "int list option"

record RequiredRetryConfig =
  maxRetries :: int
  initialDelay :: int
  maxDelay :: int
  backoffFactor :: int
  retryableStatuses :: "int list"

definition DEFAULT_RETRY_CONFIG :: RequiredRetryConfig where
  "DEFAULT_RETRY_CONFIG =
     \<lparr> maxRetries = 2, initialDelay = 1000, maxDelay = 5000, backoffFactor = 2,
       retryableStatuses = [408, 429, 500, 502, 503, 504] \<rparr>"

definition emptyConfig :: RetryConfig where
  "emptyConfig = \<lparr> maxRetries_opt = None, initialDelay_opt = None, maxDelay_opt = None,
     backoffFactor_opt = None, retryableStatuses_opt = None \<rparr>"

definition finalConfig :: "RetryConfig \<Rightarrow> RequiredRetryConfig" where
  "finalConfig config =
     \<lparr> maxRetries = (case maxRetries_opt config of Some v \<Rightarrow> v
                       | None \<Rightarrow> maxRetries DEFAULT_RETRY_CONFIG),
       initialDelay = (case initialDelay_opt config of Some v \<Rightarrow> v
                       | None \<Rightarrow> initialDelay DEFAULT_RETRY_CONFIG),
       maxDelay = (case maxDelay_opt config of Some v \<Rightarrow> v
                       | None \<Rightarrow> maxDelay DEFAULT_RETRY_CONFIG),
       backoffFactor = (case backoffFactor_opt config of Some v \<Rightarrow> v
                       | None \<Rightarrow> backoffFactor DEFAULT_RETRY_CONFIG),
       retryableStatuses = (case retryableStatuses_opt config of Some v \<Rightarrow> v
                       | None \<Rightarrow> retryableStatuses DEFAULT_RETRY_CONFIG) \<rparr>"

record 'a RetryRun =
  rr_outcome :: "RetryError + 'a"
  rr_delays :: "int list"
  rr_attempts :: nat

function retryLoop ::
  "RequiredRetryConfig \<Rightarrow> (nat \<Rightarrow> failure + 'a) \<Rightarrow> int \<Rightarrow> int \<Rightarrow> int list \<Rightarrow> nat
     \<Rightarrow> 'a RetryRun" where
  "retryLoop cfg operation attempt delay waited n =
     (if attempt \<le> maxRetries cfg then
        (case operation n of
           Inr v \<Rightarrow> \<lparr> rr_outcome = Inr v, rr_delays = waited, rr_attempts = Suc n \<rparr>
         | Inl e \<Rightarrow>
             if attempt = maxRetries cfg
             then \<lparr> rr_outcome = Inl (OperationFailedAfter (attempt + 1) e),
                    rr_delays = waited, rr_attempts = Suc n \<rparr>
             else retryLoop cfg operation (attempt + 1)
                    (min (delay * backoffFactor cfg) (maxDelay cfg)) (waited @ [delay]) (Suc n))
      else \<lparr> rr_outcome = Inl UnexpectedRetryFailure, rr_delays = waited, rr_attempts = n \<rparr>)"
  by pat_completeness auto
termination
  by (relation "measure (\<lambda>(cfg, operation, attempt, delay, waited, n).
        nat (maxRetries cfg + 1 - attempt))") auto

definition withRetry :: "(nat \<Rightarrow> failure + 'a) \<Rightarrow> RetryConfig \<Rightarrow> 'a RetryRun" where
  "withRetry operation config =
     (let cfg = finalConfig config
      in retryLoop cfg operation 0 (initialDelay cfg) [] 0)"

definition isRetryableError :: "failure \<Rightarrow> bool" where
  "isRetryableError e =
     (case e of
        AxiosError (Some st) \<Rightarrow>
          st \<noteq> 0 \<and> st \<in> set (retryableStatuses DEFAULT_RETRY_CONFIG)
      | AxiosError None \<Rightarrow> False
      | OtherError _ \<Rightarrow> False)"

fun backoffDelays :: "RequiredRetryConfig \<Rightarrow> int \<Rightarrow> nat \<Rightarrow> int list" where
  "backoffDelays cfg d 0 = []"
| "backoffDelays cfg d (Suc k) =
     d # backoffDelays cfg (min (d * backoffFactor cfg) (maxDelay cfg)) k"

definition flaky :: "nat \<Rightarrow> failure + nat" where
  "flaky n = (if n < 2 then Inl (AxiosError (Some 503)) else Inr 7)"

definition always404 :: "nat \<Rightarrow> failure + nat" where
  "always404 n = Inl (AxiosError (Some 404))"

section \<open>Bounded TTL cache (utils/cache)\<close>

text \<open>
  A JavaScript \<open>Map\<close> iterates in insertion order, and \<open>Cache.set\<close> depends on that
  order when expiry timestamps tie, so the map is an association list: \<open>map_set\<close>
  replaces the value of a present key in place and appends a new key, \<open>map_delete\<close>
  removes the key. \<open>Date.now()\<close> is the argument \<open>now\<close>. \<open>cache_set\<close> and
  \<open>cache_get\<close> are the methods \<open>set\<close> and \<open>get\<close>; \<open>reduce\<close> without an initial
  value throws a \<open>TypeError\<close> on an empty array.
\<close>

datatype js_error = TypeError | SyntaxError | Error string

type_synonym ('k, 'v) js_map = "('k \<times> 'v) list"

definition map_get :: "'k \<Rightarrow> ('k, 'v) js_map \<Rightarrow> 'v option" where
  "map_get k m = map_of m k"

definition map_set :: "'k \<Rightarrow> 'v \<Rightarrow> ('k, 'v) js_map \<Rightarrow> ('k, 'v) js_map" where
  "map_set k v m = AList.update k v m"

definition map_delete :: "'k \<Rightarrow> ('k, 'v) js_map \<Rightarrow> ('k, 'v) js_map" where
  "map_delete k m = AList.delete k m"

record 'a CacheEntry =
  entry_value :: 'a
  expiresAt :: int

record 'a Cache =
  cache :: "(string, 'a CacheEntry) js_map"
  ttl :: int
  maxSize :: int

definition newCache :: "int \<Rightarrow> int option \<Rightarrow> 'a Cache" where
  "newCache ttl_ms maxSize_opt =
     \<lparr> cache = [], ttl = ttl_ms,
       maxSize = (case maxSize_opt of None \<Rightarrow> 1000
                  | Some n \<Rightarrow> if n = 0 then 1000 else n) \<rparr>"

definition oldestEntry ::
  "(string \<times> 'a CacheEntry) list \<Rightarrow> js_error + (string \<times> 'a CacheEntry)" where
  "oldestEntry entries =
     (case entries of
        [] \<Rightarrow> Inl TypeError
      | e # es \<Rightarrow>
          Inr (foldl (\<lambda>oldest current.
                 if expiresAt (snd current) < expiresAt (snd oldest) then current else oldest)
               e es))"

definition cache_set :: "int \<Rightarrow> string \<Rightarrow> 'a \<Rightarrow> 'a Cache \<Rightarrow> js_error + 'a Cache" where
  "cache_set now key v c =
     (if int (length (cache c)) \<ge> maxSize c then
        (case oldestEntry (cache c) of
           Inl err \<Rightarrow> Inl err
         | Inr oldest \<Rightarrow>
             Inr (c \<lparr> cache := map_set key \<lparr> entry_value = v, expiresAt = now + ttl c \<rparr>
                                (map_delete (fst oldest) (cache c)) \<rparr>))
      else Inr (c \<lparr> cache := map_set key \<lparr> entry_value = v, expiresAt = now + ttl c \<rparr>
                               (cache c) \<rparr>))"

definition cache_get :: "int \<Rightarrow> string \<Rightarrow> 'a Cache \<Rightarrow> 'a option \<times> 'a Cache" where
  "cache_get now key c =
     (case map_get key (cache c) of
        None \<Rightarrow> (None, c)
      | Some entry \<Rightarrow>
          if now > expiresAt entry
          then (None, c \<lparr> cache := map_delete key (cache c) \<rparr>)
          else (Some (entry_value entry), c))"

section \<open>Strings\<close>

text \<open>
  \<open>toLowerCase lc s\<close> is \<open>s.toLowerCase()\<close>. On a string of ASCII characters only,
  \<open>String.prototype.toLowerCase\<close> replaces the letters A to Z by a to z and leaves every
  other character as it is; that part is written out (\<open>lowerChar\<close>). On a string with a
  character outside ASCII the result is the Unicode lower-casing of the JavaScript engine,
  which the model takes as the parameter \<open>lc\<close> and of which it assumes nothing.
  \<open>startsWith s p\<close> and \<open>str_includes s sub\<close> are \<open>s.startsWith(p)\<close> and
  \<open>s.includes(sub)\<close>; \<open>splitFirst s\<close> is \<open>s.split('-')[0]\<close>.
\<close>

definition lowerChar :: "char \<Rightarrow> char" where
  "lowerChar c =
     (case map_of (zip ''ABCDEFGHIJKLMNOPQRSTUVWXYZ'' ''abcdefghijklmnopqrstuvwxyz'') c of
        Some l \<Rightarrow> l
      | None \<Rightarrow> c)"

definition isAscii :: "string \<Rightarrow> bool" where
  "isAscii s = list_all (\<lambda>c. \<not> digit7 c) s"

definition toLowerCase :: "(string \<Rightarrow> string) \<Rightarrow> string \<Rightarrow> string" where
  "toLowerCase lc s = (if isAscii s then map lowerChar s else lc s)"

fun startsWith :: "string \<Rightarrow> string \<Rightarrow> bool" where
  "startsWith s [] = True"
| "startsWith [] (p # ps) = False"
| "startsWith (c # s) (p # ps) = (c = p \<and> startsWith s ps)"

fun str_includes :: "string \<Rightarrow> string \<Rightarrow> bool" where
  "str_includes [] sub = (sub = [])"
| "str_includes (c # s) sub = (startsWith (c # s) sub \<or> str_includes s sub)"

definition splitFirst :: "string \<Rightarrow> string" where
  "splitFirst s = takeWhile (\<lambda>c. c \<noteq> CHR ''-'') s"

section \<open>JavaScript values\<close>

text \<open>
  Tool inputs, tool results and cached delivery modes are untyped (\<open>any\<close>) in the
  source; they are values of \<open>jsval\<close>. An object lists each property once.
  \<open>optProp x f\<close> is \<open>x?.f\<close>, and also \<open>x.f\<close> where \<open>x\<close> is known not to be nullish,
  for the property names the source reads (none of them is a built-in property of a
  string, a number or an array); reading a property of a nullish value throws a
  \<open>TypeError\<close>, which each call site writes out. \<open>strictEq\<close> is \<open>===\<close>
  between values that come from different object graphs, so two objects or two arrays
  are never equal. \<open>js_find\<close> is \<open>Array.prototype.find\<close> with a predicate that may
  throw.
\<close>


datatype jsval =
    JUndefined
  | JNull
  | JBool bool
  | JNum int
  | JStr string
  | JArr "jsval list"
  | JObj "(string \<times> jsval) list"

fun truthy :: "jsval \<Rightarrow> bool" where
  "truthy JUndefined = False"
| "truthy JNull = False"
| "truthy (JBool b) = b"
| "truthy (JNum n) = (n \<noteq> 0)"
| "truthy (JStr s) = (s \<noteq> [])"
| "truthy (JArr xs) = True"
| "truthy (JObj kvs) = True"

definition js_or :: "jsval \<Rightarrow> jsval \<Rightarrow> jsval" where
  "js_or a b = (if truthy a then a else b)"

fun nullish :: "jsval \<Rightarrow> bool" where
  "nullish JUndefined = True"
| "nullish JNull = True"
| "nullish v = False"

fun isArray :: "jsval \<Rightarrow> bool" where
  "isArray (JArr xs) = True"
| "isArray v = False"

fun isString :: "jsval \<Rightarrow> bool" where
  "isString (JStr s) = True"
| "isString v = False"

fun optProp :: "jsval \<Rightarrow> string \<Rightarrow> jsval" where
  "optProp (JObj kvs) f = (case map_of kvs f of Some v \<Rightarrow> v | None \<Rightarrow> JUndefined)"
| "optProp v f = JUndefined"

fun index0 :: "jsval \<Rightarrow> jsval" where
  "index0 (JArr (x # xs)) = x"
| "index0 v = JUndefined"

fun strictEq :: "jsval \<Rightarrow> jsval \<Rightarrow> bool" where
  "strictEq JUndefined JUndefined = True"
| "strictEq JNull JNull = True"
| "strictEq (JBool a) (JBool b) = (a = b)"
| "strictEq (JNum a) (JNum b) = (a = b)"
| "strictEq (JStr a) (JStr b) = (a = b)"
| "strictEq a b = False"

fun js_find :: "(jsval \<Rightarrow> js_error + bool) \<Rightarrow> jsval list \<Rightarrow> js_error + jsval" where
  "js_find p [] = Inr JUndefined"
| "js_find p (m # ms) =
     (case p m of
        Inl err \<Rightarrow> Inl err
      | Inr True \<Rightarrow> Inr m
      | Inr False \<Rightarrow> js_find p ms)"

section \<open>Chat service state (bridge-service ChatService, MCPClient)\<close>

text \<open>
  \<open>ChatState\<close> holds the three per-conversation maps of \<open>ChatService\<close>. The world
  outside the service is a backend state \<open>'w\<close>, together with the list of tool calls
  made through the client and their results, in order. The environment record holds what
  the service calls but does not define: the protocol client, \<open>JSON.parse\<close> (\<open>None\<close> when
  it throws), \<open>JSON.stringify\<close> (\<open>None\<close> for \<open>undefined\<close>), the message text of an
  error, the engine's lower-casing of strings with characters outside ASCII
  (\<open>unicodeLower\<close>), \<open>parseProducts\<close> (total: its body is one \<open>try\<close>/\<open>catch\<close>),
  \<open>uuidv4\<close> and the completion provider. \<open>callTool\<close> is \<open>MCPClient.callTool\<close> on a
  connected client (\<open>ChatService.initialize\<close> connects it, and nothing in a turn
  disconnects it), so the reconnect at the head of \<open>callTool\<close> is not part of the
  model; an exception of the protocol client becomes an error-flagged result, and
  \<open>callTool\<close> itself never throws.
\<close>


record ToolCall =
  tc_id :: string
  tc_name :: string
  tc_input :: jsval

record MCPToolCall =
  mc_name :: string
  mc_arguments :: jsval

record MCPToolResult =
  content :: jsval
  isError :: bool

record 'p ToolResultEntry =
  tool_use_id :: string
  r_content :: jsval
  r_products :: "'p list option"
  r_error :: "js_error option"

record ChatState =
  cartsByConversation :: "string \<rightharpoonup> jsval"
  deliveryModesByConversation :: "string \<rightharpoonup> jsval list"
  lastOrderCodeByConversation :: "string \<rightharpoonup> string"

record 'w world =
  backend :: 'w
  calls :: "(MCPToolCall \<times> MCPToolResult) list"

datatype content_block =
    TextBlock string
  | ToolUseBlock ToolCall
  | ToolResultBlock string jsval

datatype message_content = Text string | Blocks "content_block list"

datatype role = User | Assistant

record 'p Metadata =
  md_products :: "'p list option"
  md_mcpToolsUsed :: "string list"
  md_tokensUsed :: "nat option"
  md_provider :: string

record 'p ChatMessage =
  msg_role :: role
  msg_content :: message_content
  msg_metadata :: "'p Metadata option"

record AIProviderResponse =
  ai_content :: string
  ai_tokensUsed :: "nat option"
  ai_toolCalls :: "ToolCall list option"

record 'p ProviderRequest =
  pr_messages :: "'p ChatMessage list"
  pr_systemPrompt :: string
  pr_tools :: "jsval option"
  pr_toolChoice :: "jsval option"

record ResponseMetadata =
  productsFound :: nat
  mcpToolsUsed :: "string list"
  tokensUsed :: "nat option"
  provider :: string

record ChatResponse =
  conversationId :: string
  message :: string
  metadata :: ResponseMetadata

record ('w, 'p) env =
  client_callTool :: "'w \<Rightarrow> MCPToolCall \<Rightarrow> (js_error + MCPToolResult) \<times> 'w"
  JSON_parse :: "jsval \<Rightarrow> jsval option"
  JSON_stringify :: "jsval \<Rightarrow> string option"
  errorMessage :: "js_error \<Rightarrow> string"
  unicodeLower :: "string \<Rightarrow> string"
  parseProducts :: "jsval \<Rightarrow> 'p list"
  uuidv4 :: "'w \<Rightarrow> string \<times> 'w"
  sendMessage :: "'w \<Rightarrow> 'p ProviderRequest \<Rightarrow> (js_error + AIProviderResponse) \<times> 'w"
  providerName :: string

definition stringified :: "('w, 'p) env \<Rightarrow> jsval \<Rightarrow> jsval" where
  "stringified env v = (case JSON_stringify env v of Some s \<Rightarrow> JStr s | None \<Rightarrow> JUndefined)"

definition callTool ::
  "('w, 'p) env \<Rightarrow> 'w world \<Rightarrow> MCPToolCall \<Rightarrow> MCPToolResult \<times> 'w world" where
  "callTool env w c =
     (case client_callTool env (backend w) c of
        (Inr result, b) \<Rightarrow>
          (result, \<lparr> backend = b, calls = calls w @ [(c, result)] \<rparr>)
      | (Inl err, b) \<Rightarrow>
          (let result = \<lparr> content = JObj [(''error'', JStr (errorMessage env err))],
                          isError = True \<rparr>
           in (result, \<lparr> backend = b, calls = calls w @ [(c, result)] \<rparr>)))"


section \<open>Delivery-mode cache and code correction\<close>

text \<open>
  \<open>storeDeliveryModes\<close> takes the \<open>content\<close> fields of the results it is given. Its
  loop runs inside one \<open>try\<close>: the first exception ends it and keeps what was stored
  before. \<open>exactCode\<close> and \<open>fuzzyCode\<close> are the two predicates that
  \<open>fixDeliveryModeCode\<close> passes to \<open>find\<close>.
\<close>


definition deliveryModesIn :: "('w, 'p) env \<Rightarrow> jsval \<Rightarrow> js_error + jsval list option" where
  "deliveryModesIn env c =
     (let data1 = (if isArray c then js_or (optProp (index0 c) ''text'') (index0 c) else c);
          parsed = (if isString data1
                    then (case JSON_parse env data1 of
                            None \<Rightarrow> Inl SyntaxError
                          | Some j \<Rightarrow> Inr j)
                    else Inr data1)
      in case parsed of
           Inl err \<Rightarrow> Inl err
         | Inr data2 \<Rightarrow>
             if nullish data2 then Inl TypeError
             else (case optProp data2 ''deliveryModes'' of
                     JArr modes \<Rightarrow> Inr (Some modes)
                   | other \<Rightarrow> Inr None))"

fun storeDeliveryModes ::
  "('w, 'p) env \<Rightarrow> string \<Rightarrow> jsval list \<Rightarrow> ChatState \<Rightarrow> ChatState" where
  "storeDeliveryModes env conv [] st = st"
| "storeDeliveryModes env conv (c # cs) st =
     (if truthy c then
        (case deliveryModesIn env c of
           Inl err \<Rightarrow> st
         | Inr None \<Rightarrow> storeDeliveryModes env conv cs st
         | Inr (Some modes) \<Rightarrow>
             storeDeliveryModes env conv cs
               (st \<lparr> deliveryModesByConversation :=
                        (deliveryModesByConversation st)(conv \<mapsto> modes) \<rparr>))
      else storeDeliveryModes env conv cs st)"

definition exactCode :: "jsval \<Rightarrow> jsval \<Rightarrow> js_error + bool" where
  "exactCode requestedCode m =
     (if nullish m then Inl TypeError
      else Inr (strictEq (optProp m ''code'') requestedCode))"

definition fuzzyCode ::
  "(string \<Rightarrow> string) \<Rightarrow> string \<Rightarrow> jsval \<Rightarrow> js_error + bool" where
  "fuzzyCode lc prefix m =
     (if nullish m then Inl TypeError
      else (case optProp m ''code'' of
              JStr c \<Rightarrow>
                if startsWith (toLowerCase lc c) prefix then Inr True
                else (case optProp m ''name'' of
                        JStr n \<Rightarrow> Inr (str_includes (toLowerCase lc n) prefix)
                      | other \<Rightarrow> Inl TypeError)
            | other \<Rightarrow> Inl TypeError))"

definition fixDeliveryModeCode ::
  "(string \<Rightarrow> string) \<Rightarrow> ChatState \<Rightarrow> string \<Rightarrow> jsval \<Rightarrow> js_error + jsval" where
  "fixDeliveryModeCode lc st conv requestedCode =
     (case deliveryModesByConversation st conv of
        None \<Rightarrow> Inr requestedCode
      | Some [] \<Rightarrow> Inr requestedCode
      | Some (m0 # ms) \<Rightarrow>
          (case js_find (exactCode requestedCode) (m0 # ms) of
             Inl err \<Rightarrow> Inl err
           | Inr exactMatch \<Rightarrow>
               if truthy exactMatch then Inr requestedCode
               else (case requestedCode of
                       JStr code \<Rightarrow>
                         (let requestedLower = toLowerCase lc code;
                              prefix = splitFirst requestedLower
                          in case js_find (fuzzyCode lc prefix) (m0 # ms) of
                               Inl err \<Rightarrow> Inl err
                             | Inr fuzzyMatch \<Rightarrow>
                                 if truthy fuzzyMatch then Inr (optProp fuzzyMatch ''code'')
                                 else if nullish m0 then Inl TypeError
                                 else Inr (optProp m0 ''code''))
                     | other \<Rightarrow> Inl TypeError)))"

section \<open>Tool execution: the switch of executeMCPTools\<close>

text \<open>
  \<open>executeTool\<close> is the \<open>switch\<close> on the tool name: it returns the tool result or the
  exception thrown, with the state and the world as they are at that point.
\<close>


definition tokenArg :: "string option \<Rightarrow> jsval" where
  "tokenArg userAccessToken =
     (case userAccessToken of None \<Rightarrow> JUndefined | Some t \<Rightarrow> JStr t)"

definition storedCart :: "ChatState \<Rightarrow> string \<Rightarrow> jsval" where
  "storedCart st conv =
     (case cartsByConversation st conv of None \<Rightarrow> JUndefined | Some c \<Rightarrow> c)"

definition relay ::
  "('w, 'p) env \<Rightarrow> ChatState \<Rightarrow> 'w world \<Rightarrow> string \<Rightarrow> (string \<times> jsval) list
     \<Rightarrow> (js_error + MCPToolResult) \<times> ChatState \<times> 'w world" where
  "relay env st w name args =
     (case callTool env w \<lparr> mc_name = name, mc_arguments = JObj args \<rparr> of
        (result, w') \<Rightarrow> (Inr result, st, w'))"

definition parseCartData :: "('w, 'p) env \<Rightarrow> jsval \<Rightarrow> js_error + jsval" where
  "parseCartData env c =
     (if isArray c then
        (if nullish (index0 c) then Inl TypeError
         else (case JSON_parse env (optProp (index0 c) ''text'') of
                 None \<Rightarrow> Inl SyntaxError
               | Some j \<Rightarrow> Inr j))
      else if isString c then
        (case JSON_parse env c of None \<Rightarrow> Inl SyntaxError | Some j \<Rightarrow> Inr j)
      else Inr c)"

definition createdCartId :: "('w, 'p) env \<Rightarrow> MCPToolResult \<Rightarrow> js_error + jsval" where
  "createdCartId env cartResult =
     (case (if truthy (content cartResult)
            then parseCartData env (content cartResult)
            else Inr JUndefined) of
        Inl err \<Rightarrow> Inl err
      | Inr cartData \<Rightarrow>
          (let cartId = js_or (js_or (js_or (optProp cartData ''cartId'')
                                            (optProp cartData ''code''))
                                     (optProp cartData ''guid''))
                              (optProp cartData ''id'')
           in if \<not> truthy cartId
              then Inl (Error ''Failed to extract cartId from cart creation response'')
              else Inr cartId))"

definition addressFields :: "jsval \<Rightarrow> (string \<times> jsval) list" where
  "addressFields a =
     [(''title'', optProp a ''title''),
      (''titleCode'', js_or (optProp a ''titleCode'') (JStr ''mr'')),
      (''firstName'', optProp a ''firstName''),
      (''lastName'', optProp a ''lastName''),
      (''companyName'', optProp a ''companyName''),
      (''line1'', optProp a ''line1''),
      (''line2'', optProp a ''line2''),
      (''town'', optProp a ''town''),
      (''postalCode'', optProp a ''postalCode''),
      (''country'', JObj [(''isocode'', optProp a ''countryIsocode''),
                          (''name'', optProp a ''countryName'')]),
      (''phone'', optProp a ''phone''),
      (''email'', optProp a ''email'')]"

definition regionField :: "jsval \<Rightarrow> (string \<times> jsval) list" where
  "regionField a =
     [(''region'', JObj [(''isocode'', optProp a ''regionIsocode''),
                         (''name'', optProp a ''regionName''),
                         (''countryIso'', optProp a ''countryIsocode'')])]"

definition addressPayload :: "jsval \<Rightarrow> jsval" where
  "addressPayload input =
     JObj (addressFields input @
           (if truthy (optProp input ''regionIsocode'') \<or> truthy (optProp input ''regionName'')
            then regionField input else []))"

definition billingAddressPayload :: "jsval \<Rightarrow> jsval" where
  "billingAddressPayload billing =
     JObj (addressFields billing @
           (if truthy (optProp billing ''regionIsocode'') then regionField billing else []))"

definition emptyCartMessage :: jsval where
  "emptyCartMessage =
     JObj [(''message'',
            JStr ''Your cart is currently empty. Start shopping by searching for products!''),
           (''isEmpty'', JBool True),
           (''totalItems'', JNum 0)]"

definition noCartError :: jsval where
  "noCartError =
     JObj [(''error'', JStr ''No cart exists''),
           (''message'', JStr (''You need to create a cart and add items before setting a ''
              @ ''delivery address. Please start by adding products to your cart.''))]"

definition executeTool ::
  "('w, 'p) env \<Rightarrow> ToolCall \<Rightarrow> string \<Rightarrow> string option \<Rightarrow> ChatState \<Rightarrow> 'w world
     \<Rightarrow> (js_error + MCPToolResult) \<times> ChatState \<times> 'w world" where
  "executeTool env toolCall conv userAccessToken st w =
     (let name = tc_name toolCall;
          input = tc_input toolCall;
          token = tokenArg userAccessToken
      in
      if name = ''search-products'' then
        (if nullish input then (Inl TypeError, st, w)
         else relay env st w ''search-products''
                [(''query'', optProp input ''query''),
                 (''pageSize'', js_or (optProp input ''pageSize'') (JNum 10))])
      else if name = ''search-products-advanced'' then
        (if nullish input then (Inl TypeError, st, w)
         else relay env st w ''search-products-advanced''
                [(''query'', optProp input ''query''),
                 (''minPrice'', optProp input ''minPrice''),
                 (''maxPrice'', optProp input ''maxPrice''),
                 (''categoryCode'', optProp input ''categoryCode''),
                 (''sort'', optProp input ''sort''),
                 (''pageSize'', optProp input ''pageSize''),
                 (''currentPage'', optProp input ''currentPage'')])
      else if name = ''get-product-details'' then
        (if nullish input then (Inl TypeError, st, w)
         else relay env st w ''get-product-details''
                [(''productCode'', optProp input ''productCode'')])
      else if name = ''check-product-availability'' then
        (if nullish input then (Inl TypeError, st, w)
         else relay env st w ''check-product-availability''
                [(''productCode'', optProp input ''productCode'')])
      else if name = ''get-categories'' then
        relay env st w ''get-categories'' []
      else if name = ''get-products-by-category'' then
        (if nullish input then (Inl TypeError, st, w)
         else relay env st w ''get-products-by-category''
                [(''categoryId'', optProp input ''categoryCode''),
                 (''currentPage'', optProp input ''currentPage''),
                 (''pageSize'', optProp input ''pageSize''),
                 (''sort'', optProp input ''sort'')])
      else if name = ''get-promotions'' then
        relay env st w ''get-promotions'' []
      else if name = ''get-product-reviews'' then
        (if nullish input then (Inl TypeError, st, w)
         else relay env st w ''get-product-reviews''
                [(''productCode'', optProp input ''productCode'')])
      else if name = ''get-product-suggestions'' then
        (if nullish input then (Inl TypeError, st, w)
         else relay env st w ''get-product-suggestions''
                [(''term'', optProp input ''term''), (''max'', optProp input ''max'')])
      else if name = ''get-order-status'' then
        (if nullish input then (Inl TypeError, st, w)
         else relay env st w ''get-order-status''
                [(''orderCode'', optProp input ''orderCode''), (''userAccessToken'', token)])
      else if name = ''get-order-history'' then
        (if nullish input then (Inl TypeError, st, w)
         else relay env st w ''get-order-history''
                [(''pageSize'', optProp input ''pageSize''),
                 (''currentPage'', optProp input ''currentPage''),
                 (''userAccessToken'', token)])
      else if name = ''place-order'' then
        (if nullish input then (Inl TypeError, st, w)
         else
           (let orderCartId = js_or (optProp input ''cartId'') (storedCart st conv)
            in case callTool env w
                      \<lparr> mc_name = ''place-order'',
                        mc_arguments = JObj [(''cartId'', orderCartId),
                                             (''userAccessToken'', token)] \<rparr> of
                 (result, w') \<Rightarrow>
                   if truthy orderCartId
                   then (Inr result,
                         st \<lparr> cartsByConversation := (cartsByConversation st)(conv := None) \<rparr>,
                         w')
                   else (Inr result, st, w')))
      else if name = ''create-cart'' then
        (case callTool env w
                \<lparr> mc_name = ''create-cart'',
                  mc_arguments = JObj [(''userAccessToken'', token)] \<rparr> of
           (result, w') \<Rightarrow>
             if truthy (content result) \<and> \<not> isError result then
               (case parseCartData env (content result) of
                  Inl err \<Rightarrow> (Inl err, st, w')
                | Inr cartData \<Rightarrow>
                    (let newCartId = js_or (js_or (optProp cartData ''cartId'')
                                                  (optProp cartData ''code''))
                                           (optProp cartData ''guid'')
                     in if truthy newCartId
                        then (Inr result,
                              st \<lparr> cartsByConversation :=
                                     (cartsByConversation st)(conv \<mapsto> newCartId) \<rparr>,
                              w')
                        else (Inr result, st, w')))
             else (Inr result, st, w'))
      else if name = ''get-cart'' then
        (if nullish input then (Inl TypeError, st, w)
         else
           (let getCartId = js_or (optProp input ''cartId'') (storedCart st conv)
            in if \<not> truthy getCartId
               then (Inr \<lparr> content = stringified env emptyCartMessage, isError = False \<rparr>,
                     st, w)
               else relay env st w ''get-cart''
                      [(''cartId'', getCartId), (''userAccessToken'', token)]))
      else if name = ''add-to-cart'' then
        (if nullish input then (Inl TypeError, st, w)
         else
           (let cartId = js_or (optProp input ''cartId'') (storedCart st conv)
            in if \<not> truthy cartId then
                 (case callTool env w
                         \<lparr> mc_name = ''create-cart'',
                           mc_arguments = JObj [(''userAccessToken'', token)] \<rparr> of
                    (cartResult, w') \<Rightarrow>
                      (case createdCartId env cartResult of
                         Inl err \<Rightarrow> (Inl err, st, w')
                       | Inr newCartId \<Rightarrow>
                           relay env
                             (st \<lparr> cartsByConversation :=
                                     (cartsByConversation st)(conv \<mapsto> newCartId) \<rparr>)
                             w' ''add-to-cart''
                             [(''cartId'', newCartId),
                              (''productCode'', optProp input ''productCode''),
                              (''quantity'', js_or (optProp input ''quantity'') (JNum 1)),
                              (''userAccessToken'', token)]))
               else relay env st w ''add-to-cart''
                      [(''cartId'', cartId),
                       (''productCode'', optProp input ''productCode''),
                       (''quantity'', js_or (optProp input ''quantity'') (JNum 1)),
                       (''userAccessToken'', token)]))
      else if name = ''update-cart-entry'' then
        (if nullish input then (Inl TypeError, st, w)
         else relay env st w ''update-cart-entry''
                [(''cartId'', js_or (optProp input ''cartId'') (storedCart st conv)),
                 (''entryNumber'', optProp input ''entryNumber''),
                 (''quantity'', optProp input ''quantity''),
                 (''userAccessToken'', token)])
      else if name = ''remove-from-cart'' then
        (if nullish input then (Inl TypeError, st, w)
         else relay env st w ''remove-from-cart''
                [(''cartId'', js_or (optProp input ''cartId'') (storedCart st conv)),
                 (''entryNumber'', optProp input ''entryNumber''),
                 (''userAccessToken'', token)])
      else if name = ''set-delivery-address'' then
        (let setAddrCartId = storedCart st conv
         in if \<not> truthy setAddrCartId
            then (Inr \<lparr> content = stringified env noCartError, isError = True \<rparr>, st, w)
            else if nullish input then (Inl TypeError, st, w)
            else relay env st w ''set-delivery-address''
                   [(''cartId'', setAddrCartId),
                    (''address'', addressPayload input),
                    (''userAccessToken'', token)])
      else if name = ''get-delivery-modes'' then
        (case callTool env w
                \<lparr> mc_name = ''get-delivery-modes'',
                  mc_arguments = JObj [(''cartId'', storedCart st conv),
                                       (''userAccessToken'', token)] \<rparr> of
           (result, w') \<Rightarrow>
             if \<not> isError result
             then (Inr result, storeDeliveryModes env conv [content result] st, w')
             else (Inr result, st, w'))
      else if name = ''set-delivery-mode'' then
        (if nullish input then (Inl TypeError, st, w)
         else (case fixDeliveryModeCode (unicodeLower env) st conv
                      (optProp input ''deliveryModeCode'') of
                 Inl err \<Rightarrow> (Inl err, st, w)
               | Inr correctedCode \<Rightarrow>
                   relay env st w ''set-delivery-mode''
                     [(''cartId'', storedCart st conv),
                      (''deliveryModeCode'', correctedCode),
                      (''userAccessToken'', token)]))
      else if name = ''set-payment-details'' then
        (if nullish input then (Inl TypeError, st, w)
         else if nullish (optProp input ''billingAddress'') then (Inl TypeError, st, w)
         else relay env st w ''set-payment-details''
                [(''cartId'', storedCart st conv),
                 (''paymentDetails'',
                  JObj [(''accountHolderName'', optProp input ''accountHolderName''),
                        (''cardNumber'', optProp input ''cardNumber''),
                        (''cardType'', JObj [(''code'', optProp input ''cardTypeCode'')]),
                        (''expiryMonth'', optProp input ''expiryMonth''),
                        (''expiryYear'', optProp input ''expiryYear''),
                        (''cvv'', optProp input ''cvv''),
                        (''billingAddress'',
                         billingAddressPayload (optProp input ''billingAddress''))]),
                 (''userAccessToken'', token)])
      else (Inr \<lparr> content = JUndefined, isError = False \<rparr>, st, w))"


text \<open>
  \<open>executeOne\<close> is one iteration of the loop of \<open>executeMCPTools\<close>: the switch, the
  check for an authentication failure, the product parsing, and the \<open>catch\<close> that turns
  an exception into an error entry. An entry's \<open>r_error\<close> is set exactly when the
  source sets \<open>error\<close> (the message of a thrown error is never empty).
\<close>

definition reauthPayload :: jsval where
  "reauthPayload =
     JObj [(''error'', JStr ''Authentication failed''),
           (''message'', JStr ''Your session has expired. Please log in again to continue.''),
           (''requiresReauth'', JBool True)]"

definition optIncludes :: "string option \<Rightarrow> string \<Rightarrow> bool" where
  "optIncludes contentStr sub =
     (case contentStr of None \<Rightarrow> False | Some s \<Rightarrow> str_includes s sub)"

definition contentStr :: "('w, 'p) env \<Rightarrow> MCPToolResult \<Rightarrow> string option" where
  "contentStr env result =
     (case content result of
        JStr s \<Rightarrow> Some s
      | other \<Rightarrow> JSON_stringify env other)"

definition executeOne ::
  "('w, 'p) env \<Rightarrow> ToolCall \<Rightarrow> string \<Rightarrow> string option \<Rightarrow> ChatState \<Rightarrow> 'w world
     \<Rightarrow> 'p ToolResultEntry \<times> ChatState \<times> 'w world" where
  "executeOne env toolCall conv userAccessToken st w =
     (case executeTool env toolCall conv userAccessToken st w of
        (Inl err, st', w') \<Rightarrow>
          (\<lparr> tool_use_id = tc_id toolCall, r_content = JUndefined,
             r_products = None, r_error = Some err \<rparr>, st', w')
      | (Inr result, st', w') \<Rightarrow>
          (if isError result
              \<and> (optIncludes (contentStr env result) ''401''
                 \<or> optIncludes (contentStr env result) ''Unauthorized'')
              then (\<lparr> tool_use_id = tc_id toolCall,
                      r_content = stringified env reauthPayload,
                      r_products = Some [], r_error = None \<rparr>, st', w')
              else (\<lparr> tool_use_id = tc_id toolCall,
                      r_content = content result,
                      r_products =
                        Some (if (tc_name toolCall = ''search-products''
                                  \<or> tc_name toolCall = ''search-products-advanced'')
                                 \<and> \<not> isError result
                              then parseProducts env (content result) else []),
                      r_error = None \<rparr>, st', w')))"

fun executeMCPTools ::
  "('w, 'p) env \<Rightarrow> ToolCall list \<Rightarrow> string \<Rightarrow> string option \<Rightarrow> ChatState \<Rightarrow> 'w world
     \<Rightarrow> 'p ToolResultEntry list \<times> ChatState \<times> 'w world" where
  "executeMCPTools env [] conv userAccessToken st w = ([], st, w)"
| "executeMCPTools env (toolCall # rest) conv userAccessToken st w =
     (case executeOne env toolCall conv userAccessToken st w of
        (r, st', w') \<Rightarrow>
          (case executeMCPTools env rest conv userAccessToken st' w' of
             (rs, st'', w'') \<Rightarrow> (r # rs, st'', w'')))"

section \<open>One conversation turn: handleChatMessage from the first provider call\<close>

text \<open>
  \<open>handleChatMessage\<close> embeds the function from its first call of the completion
  provider to its return. Its arguments \<open>conv\<close>, \<open>history\<close>, \<open>systemPrompt\<close>, \<open>tools\<close>
  and \<open>toolChoice\<close> are the values the function computes before that call; those steps
  make no tool call and touch neither the cart map nor the delivery-mode map. The result
  carries the response and the assistant message that is appended to the conversation.
  \<open>toolPhase\<close> is the body of \<open>if (aiResponse.toolCalls ...)\<close> up to the second
  provider call, \<open>triggerPlaceOrder\<close> and \<open>triggerDeliveryModes\<close> its two
  auto-trigger blocks, in the order of the source.
\<close>


definition providerCall ::
  "('w, 'p) env \<Rightarrow> 'w world \<Rightarrow> 'p ProviderRequest
     \<Rightarrow> (js_error + AIProviderResponse) \<times> 'w world" where
  "providerCall env w req =
     (case sendMessage env (backend w) req of (r, b) \<Rightarrow> (r, w \<lparr> backend := b \<rparr>))"

definition freshId :: "('w, 'p) env \<Rightarrow> 'w world \<Rightarrow> string \<times> 'w world" where
  "freshId env w = (case uuidv4 env (backend w) of (u, b) \<Rightarrow> (u, w \<lparr> backend := b \<rparr>))"

definition findResultOf ::
  "string \<Rightarrow> ToolCall list \<Rightarrow> 'p ToolResultEntry list \<Rightarrow> 'p ToolResultEntry option" where
  "findResultOf name toolCalls toolResults =
     find (\<lambda>r. list_ex (\<lambda>tc. tc_id tc = tool_use_id r \<and> tc_name tc = name) toolCalls)
       toolResults"

record ('w, 'p) ToolPhase =
  tp_toolCalls :: "ToolCall list"
  tp_toolResults :: "'p ToolResultEntry list"
  tp_toolsUsed :: "string list"
  tp_products :: "'p list"
  tp_state :: ChatState
  tp_world :: "'w world"

definition triggerPlaceOrder ::
  "('w, 'p) env \<Rightarrow> string \<Rightarrow> string option \<Rightarrow> ('w, 'p) ToolPhase \<Rightarrow> ('w, 'p) ToolPhase" where
  "triggerPlaceOrder env conv userAccessToken t =
     (if ''set-payment-details'' \<in> set (tp_toolsUsed t) then
        (case findResultOf ''set-payment-details'' (tp_toolCalls t) (tp_toolResults t) of
           None \<Rightarrow> t
         | Some paymentResult \<Rightarrow>
             if r_error paymentResult = None then
               (case freshId env (tp_world t) of
                  (uid, w1) \<Rightarrow>
                    (let placeOrderCall =
                           \<lparr> tc_id = uid, tc_name = ''place-order'', tc_input = JObj [] \<rparr>
                     in case executeMCPTools env [placeOrderCall] conv userAccessToken
                               (tp_state t) w1 of
                          (placeOrderResults, st', w2) \<Rightarrow>
                            \<lparr> tp_toolCalls = tp_toolCalls t @ [placeOrderCall],
                              tp_toolResults = tp_toolResults t @ placeOrderResults,
                              tp_toolsUsed = tp_toolsUsed t @ [''place-order''],
                              tp_products = tp_products t,
                              tp_state = st',
                              tp_world = w2 \<rparr>))
             else t)
      else t)"

definition triggerDeliveryModes ::
  "('w, 'p) env \<Rightarrow> string \<Rightarrow> string option \<Rightarrow> ('w, 'p) ToolPhase \<Rightarrow> ('w, 'p) ToolPhase" where
  "triggerDeliveryModes env conv userAccessToken t =
     (if ''set-delivery-address'' \<in> set (tp_toolsUsed t) then
        (case findResultOf ''set-delivery-address'' (tp_toolCalls t) (tp_toolResults t) of
           None \<Rightarrow> t
         | Some addressResult \<Rightarrow>
             if r_error addressResult = None then
               (case freshId env (tp_world t) of
                  (uid, w1) \<Rightarrow>
                    (let deliveryModesCall =
                           \<lparr> tc_id = uid, tc_name = ''get-delivery-modes'', tc_input = JObj [] \<rparr>
                     in case executeMCPTools env [deliveryModesCall] conv userAccessToken
                               (tp_state t) w1 of
                          (deliveryModesResults, st', w2) \<Rightarrow>
                            \<lparr> tp_toolCalls = tp_toolCalls t @ [deliveryModesCall],
                              tp_toolResults = tp_toolResults t @ deliveryModesResults,
                              tp_toolsUsed = tp_toolsUsed t @ [''get-delivery-modes''],
                              tp_products = tp_products t,
                              tp_state = storeDeliveryModes env conv
                                           (map r_content deliveryModesResults) st',
                              tp_world = w2 \<rparr>))
             else t)
      else t)"

definition toolPhase ::
  "('w, 'p) env \<Rightarrow> string \<Rightarrow> string option \<Rightarrow> ToolCall list \<Rightarrow> ChatState \<Rightarrow> 'w world
     \<Rightarrow> ('w, 'p) ToolPhase" where
  "toolPhase env conv userAccessToken toolCalls st w =
     (case executeMCPTools env toolCalls conv userAccessToken st w of
        (toolResults, st1, w1) \<Rightarrow>
          triggerDeliveryModes env conv userAccessToken
            (triggerPlaceOrder env conv userAccessToken
               \<lparr> tp_toolCalls = toolCalls,
                 tp_toolResults = toolResults,
                 tp_toolsUsed = map tc_name toolCalls,
                 tp_products =
                   concat (map (\<lambda>r. case r_products r of None \<Rightarrow> [] | Some ps \<Rightarrow> ps)
                     toolResults),
                 tp_state = st1,
                 tp_world = w1 \<rparr>))"

definition toolResultBlock :: "('w, 'p) env \<Rightarrow> 'p ToolResultEntry \<Rightarrow> content_block" where
  "toolResultBlock env r =
     ToolResultBlock (tool_use_id r)
       (stringified env
          (js_or (r_content r)
             (case r_error r of None \<Rightarrow> JUndefined | Some e \<Rightarrow> JStr (errorMessage env e))))"

definition reply ::
  "('w, 'p) env \<Rightarrow> string \<Rightarrow> AIProviderResponse \<Rightarrow> string list \<Rightarrow> 'p list
     \<Rightarrow> ChatResponse \<times> 'p ChatMessage" where
  "reply env conv aiResponse toolsUsed products =
     (let responseContent = (if ai_content aiResponse = [] then ''Processing your request...''
                             else ai_content aiResponse)
      in (\<lparr> conversationId = conv,
             message = responseContent,
             metadata = \<lparr> productsFound = length products,
                          mcpToolsUsed = toolsUsed,
                          tokensUsed = ai_tokensUsed aiResponse,
                          provider = providerName env \<rparr> \<rparr>,
          \<lparr> msg_role = Assistant,
            msg_content = Text responseContent,
            msg_metadata = Some \<lparr> md_products = (if products = [] then None else Some products),
                                   md_mcpToolsUsed = toolsUsed,
                                   md_tokensUsed = ai_tokensUsed aiResponse,
                                   md_provider = providerName env \<rparr> \<rparr>))"

definition secondRequest ::
  "('w, 'p) env \<Rightarrow> 'p ChatMessage list \<Rightarrow> string \<Rightarrow> AIProviderResponse
     \<Rightarrow> ('w, 'p) ToolPhase \<Rightarrow> 'p ProviderRequest" where
  "secondRequest env history systemPrompt aiResponse t =
     \<lparr> pr_messages =
         history
         @ [\<lparr> msg_role = Assistant,
               msg_content = Blocks
                 ((if ai_content aiResponse = [] then [] else [TextBlock (ai_content aiResponse)])
                  @ map ToolUseBlock (tp_toolCalls t)),
               msg_metadata = None \<rparr>,
            \<lparr> msg_role = User,
              msg_content = Blocks (map (toolResultBlock env) (tp_toolResults t)),
              msg_metadata = None \<rparr>],
       pr_systemPrompt = systemPrompt,
       pr_tools = None,
       pr_toolChoice = None \<rparr>"

definition finishTurn ::
  "('w, 'p) env \<Rightarrow> string \<Rightarrow> 'p ChatMessage list \<Rightarrow> string \<Rightarrow> AIProviderResponse
     \<Rightarrow> ('w, 'p) ToolPhase
     \<Rightarrow> (js_error + ChatResponse \<times> 'p ChatMessage) \<times> ChatState \<times> 'w world" where
  "finishTurn env conv history systemPrompt aiResponse t =
     (case providerCall env (tp_world t) (secondRequest env history systemPrompt aiResponse t) of
        (Inl err, w2) \<Rightarrow> (Inl err, tp_state t, w2)
      | (Inr aiResponse2, w2) \<Rightarrow>
          (Inr (reply env conv aiResponse2 (tp_toolsUsed t) (tp_products t)), tp_state t, w2))"

definition handleChatMessage ::
  "('w, 'p) env \<Rightarrow> string \<Rightarrow> string option \<Rightarrow> 'p ChatMessage list \<Rightarrow> string \<Rightarrow> jsval \<Rightarrow> jsval
     \<Rightarrow> ChatState \<Rightarrow> 'w world
     \<Rightarrow> (js_error + ChatResponse \<times> 'p ChatMessage) \<times> ChatState \<times> 'w world" where
  "handleChatMessage env conv userAccessToken history systemPrompt tools toolChoice st w =
     (case providerCall env w
             \<lparr> pr_messages = history, pr_systemPrompt = systemPrompt,
               pr_tools = Some tools, pr_toolChoice = Some toolChoice \<rparr> of
        (Inl err, w1) \<Rightarrow> (Inl err, st, w1)
      | (Inr aiResponse, w1) \<Rightarrow>
          (case ai_toolCalls aiResponse of
             None \<Rightarrow> (Inr (reply env conv aiResponse [] []), st, w1)
           | Some [] \<Rightarrow> (Inr (reply env conv aiResponse [] []), st, w1)
           | Some (tc # tcs) \<Rightarrow>
               finishTurn env conv history systemPrompt aiResponse
                 (toolPhase env conv userAccessToken (tc # tcs) st w1)))"

section \<open>The code correction as the specification words it\<close>









definition latin1Capitals :: string where
  "latin1Capitals =
       [CHR 0xC0, CHR 0xC1, CHR 0xC2, CHR 0xC3, CHR 0xC4, CHR 0xC5, CHR 0xC6, CHR 0xC7,
        CHR 0xC8, CHR 0xC9, CHR 0xCA, CHR 0xCB, CHR 0xCC, CHR 0xCD, CHR 0xCE, CHR 0xCF,
        CHR 0xD0, CHR 0xD1, CHR 0xD2, CHR 0xD3, CHR 0xD4, CHR 0xD5, CHR 0xD6, CHR 0xD8,
        CHR 0xD9, CHR 0xDA, CHR 0xDB, CHR 0xDC, CHR 0xDD, CHR 0xDE]"

definition latin1Smalls :: string where
  "latin1Smalls =
       [CHR 0xE0, CHR 0xE1, CHR 0xE2, CHR 0xE3, CHR 0xE4, CHR 0xE5, CHR 0xE6, CHR 0xE7,
        CHR 0xE8, CHR 0xE9, CHR 0xEA, CHR 0xEB, CHR 0xEC, CHR 0xED, CHR 0xEE, CHR 0xEF,
        CHR 0xF0, CHR 0xF1, CHR 0xF2, CHR 0xF3, CHR 0xF4, CHR 0xF5, CHR 0xF6, CHR 0xF8,
        CHR 0xF9, CHR 0xFA, CHR 0xFB, CHR 0xFC, CHR 0xFD, CHR 0xFE]"

definition latin1Lower :: "string \<Rightarrow> string" where
  "latin1Lower s =
     map (\<lambda>c. case map_of (zip latin1Capitals latin1Smalls) c of
                Some l \<Rightarrow> l
              | None \<Rightarrow> lowerChar c) s"


section \<open>Invariants and auxiliary predicates\<close>

text \<open>
  \<open>initialState\<close> is the state the constructor of \<open>ChatService\<close> builds.
  \<open>cartIdsTruthy\<close>: every stored cart id is a truthy value.
  \<open>resultFor tc r\<close>: the entry \<open>r\<close> answers the call \<open>tc\<close>, and is not an exception
  entry when \<open>tc\<close> is a set-delivery-address call with an object input.
\<close>

definition initialState :: ChatState where
  "initialState =
     \<lparr> cartsByConversation = Map.empty,
       deliveryModesByConversation = Map.empty,
       lastOrderCodeByConversation = Map.empty \<rparr>"

definition cartIdsTruthy :: "ChatState \<Rightarrow> bool" where
  "cartIdsTruthy st \<longleftrightarrow> (\<forall>c v. cartsByConversation st c = Some v \<longrightarrow> truthy v)"


section \<open>A scripted shop for concrete runs\<close>

text \<open>
  A backend without state whose answer depends on the tool name, a parser that knows two
  payloads, and a provider that requests a fixed list of tool calls and then answers with
  a fixed text.
\<close>

definition shopBackend :: "unit \<Rightarrow> MCPToolCall \<Rightarrow> (js_error + MCPToolResult) \<times> unit" where
  "shopBackend b c =
     (if mc_name c = ''create-cart''
      then (Inr \<lparr> content = JArr [JObj [(''type'', JStr ''text''), (''text'', JStr ''CART'')]],
                  isError = False \<rparr>, b)
      else if mc_name c = ''get-delivery-modes''
      then (Inr \<lparr> content = JArr [JObj [(''type'', JStr ''text''), (''text'', JStr ''MODES'')]],
                  isError = False \<rparr>, b)
      else if mc_name c = ''place-order'' \<and> optProp (mc_arguments c) ''cartId'' \<noteq> JStr ''cart1''
      then (Inr \<lparr> content = JStr ''Error: Cart not found'', isError = True \<rparr>, b)
      else if mc_name c = ''get-order-history''
      then (Inr \<lparr> content = JStr ''Error: Request failed with status code 401'',
                  isError = True \<rparr>, b)
      else (Inr \<lparr> content = JStr ''ok'', isError = False \<rparr>, b))"

definition shopParse :: "jsval \<Rightarrow> jsval option" where
  "shopParse v =
     (if v = JStr ''CART'' then Some (JObj [(''code'', JStr ''cart2'')])
      else if v = JStr ''MODES''
      then Some (JObj [(''deliveryModes'',
                       JArr [JObj [(''code'', JStr ''standard-gross''),
                                   (''name'', JStr ''Standard Delivery'')],
                             JObj [(''code'', JStr ''premium-gross''),
                                   (''name'', JStr ''Premium Delivery'')]])])
      else None)"

definition shopStringify :: "jsval \<Rightarrow> string option" where
  "shopStringify v = (if v = reauthPayload then Some ''<reauth payload>'' else Some ''<json>'')"

definition scriptedProvider ::
  "ToolCall list \<Rightarrow> string \<Rightarrow> unit \<Rightarrow> nat ProviderRequest
     \<Rightarrow> (js_error + AIProviderResponse) \<times> unit" where
  "scriptedProvider toolCalls answer b req =
     (case pr_tools req of
        Some tools \<Rightarrow>
          (Inr \<lparr> ai_content = [], ai_tokensUsed = None, ai_toolCalls = Some toolCalls \<rparr>, b)
      | None \<Rightarrow>
          (Inr \<lparr> ai_content = answer, ai_tokensUsed = None, ai_toolCalls = None \<rparr>, b))"

definition shopEnv :: "ToolCall list \<Rightarrow> string \<Rightarrow> (unit, nat) env" where
  "shopEnv toolCalls answer =
     \<lparr> client_callTool = shopBackend,
       JSON_parse = shopParse,
       JSON_stringify = shopStringify,
       errorMessage = (\<lambda>e. ''error''),
       unicodeLower = latin1Lower,
       parseProducts = (\<lambda>v. []),
       uuidv4 = (\<lambda>b. (''auto'', b)),
       sendMessage = scriptedProvider toolCalls answer,
       providerName = ''claude'' \<rparr>"

definition cartState :: "string \<Rightarrow> ChatState" where
  "cartState cartId =
     \<lparr> cartsByConversation = [''conv'' \<mapsto> JStr cartId],
       deliveryModesByConversation = Map.empty,
       lastOrderCodeByConversation = Map.empty \<rparr>"

definition world0 :: "unit world" where
  "world0 = \<lparr> backend = (), calls = [] \<rparr>"

definition addressCall :: ToolCall where
  "addressCall = \<lparr> tc_id = ''t1'', tc_name = ''set-delivery-address'',
                   tc_input = JObj [(''line1'', JStr ''1 Main St'')] \<rparr>"

definition paymentCall :: ToolCall where
  "paymentCall = \<lparr> tc_id = ''t2'', tc_name = ''set-payment-details'',
                   tc_input = JObj [(''billingAddress'', JObj [])] \<rparr>"

definition orderCall :: ToolCall where
  "orderCall = \<lparr> tc_id = ''t3'', tc_name = ''place-order'', tc_input = JObj [] \<rparr>"

definition reorderCall :: ToolCall where
  "reorderCall = \<lparr> tc_id = ''t4'', tc_name = ''place-order'',
                   tc_input = JObj [(''cartId'', JStr ''stale'')] \<rparr>"

definition addCall :: ToolCall where
  "addCall = \<lparr> tc_id = ''t5'', tc_name = ''add-to-cart'',
               tc_input = JObj [(''productCode'', JStr ''ACME-100'')] \<rparr>"

definition addWithCartCall :: ToolCall where
  "addWithCartCall = \<lparr> tc_id = ''t6'', tc_name = ''add-to-cart'',
                       tc_input = JObj [(''cartId'', JStr ''cart1''),
                                        (''productCode'', JStr ''ACME-100'')] \<rparr>"

definition historyCall :: ToolCall where
  "historyCall = \<lparr> tc_id = ''t7'', tc_name = ''get-order-history'', tc_input = JObj [] \<rparr>"

definition callSummary :: "MCPToolCall \<times> MCPToolResult \<Rightarrow> string \<times> jsval \<times> bool" where
  "callSummary cr = (mc_name (fst cr), optProp (mc_arguments (fst cr)) ''cartId'', isError (snd cr))"

definition firstRequest :: "nat ProviderRequest" where
  "firstRequest = \<lparr> pr_messages = [], pr_systemPrompt = ''prompt'',
                     pr_tools = Some JNull, pr_toolChoice = Some JNull \<rparr>"

definition fullCache :: "nat Cache" where
  "fullCache =
     \<lparr> cache = [(''a'', \<lparr> entry_value = 1, expiresAt = 50 \<rparr>),
                (''b'', \<lparr> entry_value = 2, expiresAt = 30 \<rparr>)],
       ttl = 100, maxSize = 2 \<rparr>"

chapter \<open>Properties\<close>

section \<open>Health monitor: the idle window\<close>

text \<open>
  Claim C10. A window is what happens between two ticks of the monitor (or between its
  construction and the first tick). Every tick resets the four counters, so when no
  request and no cache access is recorded in a window, the tick that evaluates it
  computes the error rate 0, lets the cache hit rate default to 1, and sets the status
  \<open>healthy\<close>, whatever the monitor had counted before the window: an idle window is
  never classified \<open>degraded\<close> or \<open>unhealthy\<close>.
\<close>

theorem checkHealth_idle_window:
  "errorRate (details (hm_status (checkHealth t2 (checkHealth t1 m)))) = Some 0
   \<and> cacheHitRate (details (hm_status (checkHealth t2 (checkHealth t1 m)))) = Some 1
   \<and> status (hm_status (checkHealth t2 (checkHealth t1 m))) = Healthy
   \<and> errorRate (details (hm_status (checkHealth t1 (newHealthMonitor t0)))) = Some 0
   \<and> cacheHitRate (details (hm_status (checkHealth t1 (newHealthMonitor t0)))) = Some 1
   \<and> status (hm_status (checkHealth t1 (newHealthMonitor t0))) = Healthy"
  by (simp add: checkHealth_def determineStatus_def newHealthMonitor_def Let_def)

text \<open>
  A window with one failed request and one cache miss is classified \<open>unhealthy\<close>; the
  idle window after it is \<open>healthy\<close>.
\<close>

theorem checkHealth_idle_window_witness:
  "status (hm_status (checkHealth 5
      (recordCacheAccess False (recordRequestComplete 12 True (newHealthMonitor 0)))))
     = Unhealthy
   \<and> status (hm_status (checkHealth 9 (checkHealth 5
      (recordCacheAccess False (recordRequestComplete 12 True (newHealthMonitor 0))))))
     = Healthy"
proof -
  have u: "status (hm_status (checkHealth 5
      (recordCacheAccess False (recordRequestComplete 12 True (newHealthMonitor 0)))))
     = Unhealthy"
    by (simp add: checkHealth_def determineStatus_def recordRequestComplete_def
        recordCacheAccess_def newHealthMonitor_def Let_def)
  from checkHealth_idle_window [of 9 5
      "recordCacheAccess False (recordRequestComplete 12 True (newHealthMonitor 0))" 0] u
  show ?thesis by simp
qed

section \<open>Resilient call wrapper\<close>

lemma retryLoop_success:
  assumes "\<forall>k<N. \<exists>e. operation (n + k) = Inl e"
    and "operation (n + N) = Inr v"
    and "attempt + int N \<le> maxRetries cfg"
  shows "retryLoop cfg operation attempt delay waited n =
           \<lparr> rr_outcome = Inr v, rr_delays = waited @ backoffDelays cfg delay N,
             rr_attempts = Suc (n + N) \<rparr>"
  using assms
proof (induction N arbitrary: attempt delay waited n)
  case 0
  then show ?case by simp
next
  case (Suc N)
  from Suc.prems(1) obtain e where e: "operation n = Inl e"
    by (metis add.right_neutral zero_less_Suc)
  have lt: "attempt < maxRetries cfg" using Suc.prems(3) by simp
  have fails: "\<forall>k<N. \<exists>e. operation (Suc n + k) = Inl e"
  proof (intro allI impI)
    fix k assume "k < N"
    then have "Suc k < Suc N" by simp
    with Suc.prems(1) have "\<exists>e. operation (n + Suc k) = Inl e" by blast
    then show "\<exists>e. operation (Suc n + k) = Inl e" by simp
  qed
  have ok: "operation (Suc n + N) = Inr v" using Suc.prems(2) by simp
  have le: "attempt + 1 + int N \<le> maxRetries cfg" using Suc.prems(3) by simp
  have step: "retryLoop cfg operation attempt delay waited n =
      retryLoop cfg operation (attempt + 1)
        (min (delay * backoffFactor cfg) (maxDelay cfg)) (waited @ [delay]) (Suc n)"
    using e lt by (subst retryLoop.simps) simp
  show ?case
    unfolding step
    using Suc.IH [OF fails ok le] by simp
qed

lemma backoffDelays_length: "length (backoffDelays cfg d N) = N"
  by (induction N arbitrary: d) auto

lemma backoffDelays_bounds:
  assumes "0 \<le> d" and "d \<le> maxDelay cfg" and "1 \<le> backoffFactor cfg"
  shows "\<forall>x \<in> set (backoffDelays cfg d N). d \<le> x \<and> x \<le> maxDelay cfg"
  using assms
proof (induction N arbitrary: d)
  case 0
  then show ?case by simp
next
  case (Suc N)
  let ?d' = "min (d * backoffFactor cfg) (maxDelay cfg)"
  have m: "d \<le> d * backoffFactor cfg"
    using Suc.prems(1,3) by (simp add: mult_le_cancel_left1)
  then have d': "d \<le> ?d'" using Suc.prems(2) by simp
  have "0 \<le> ?d'" using d' Suc.prems(1) by linarith
  moreover have "?d' \<le> maxDelay cfg" by simp
  ultimately have "\<forall>x \<in> set (backoffDelays cfg ?d' N). ?d' \<le> x \<and> x \<le> maxDelay cfg"
    using Suc.IH Suc.prems(3) by blast
  with d' Suc.prems(2) show ?case by fastforce
qed

lemma backoffDelays_sorted:
  assumes "0 \<le> d" and "d \<le> maxDelay cfg" and "1 \<le> backoffFactor cfg"
  shows "sorted (backoffDelays cfg d N)"
  using assms
proof (induction N arbitrary: d)
  case 0
  then show ?case by simp
next
  case (Suc N)
  let ?d' = "min (d * backoffFactor cfg) (maxDelay cfg)"
  have m: "d \<le> d * backoffFactor cfg"
    using Suc.prems(1,3) by (simp add: mult_le_cancel_left1)
  then have d': "d \<le> ?d'" using Suc.prems(2) by simp
  have nn: "0 \<le> ?d'" using d' Suc.prems(1) by linarith
  have le: "?d' \<le> maxDelay cfg" by simp
  have s: "sorted (backoffDelays cfg ?d' N)"
    using Suc.IH [OF nn le Suc.prems(3)] .
  have "\<forall>x \<in> set (backoffDelays cfg ?d' N). ?d' \<le> x \<and> x \<le> maxDelay cfg"
    using backoffDelays_bounds [OF nn le Suc.prems(3)] .
  with d' have "\<forall>x \<in> set (backoffDelays cfg ?d' N). d \<le> x" by fastforce
  with s show ?case by simp
qed

text \<open>
  Claim C4. A non-retryable failure should propagate at once, with no further attempt and
  no backoff delay. The loop of \<open>withRetry\<close> never looks at the failure: under the
  default policy an operation that always answers 404, which \<open>isRetryableError\<close>
  rejects, is invoked three times, with delays of 1000 and 2000 ms in between, and the
  failure comes back wrapped in a \<open>RetryError\<close>.
\<close>

theorem withRetry_retries_nonretryable:
  "\<not> isRetryableError (AxiosError (Some 404))
   \<and> 404 \<notin> set (retryableStatuses (finalConfig emptyConfig))
   \<and> withRetry always404 emptyConfig
       = \<lparr> rr_outcome = Inl (OperationFailedAfter 3 (AxiosError (Some 404))),
           rr_delays = [1000, 2000], rr_attempts = 3 \<rparr>"
  by (simp add: isRetryableError_def withRetry_def finalConfig_def emptyConfig_def
      DEFAULT_RETRY_CONFIG_def always404_def)

text \<open>
  Claim C8, as amended. For every operation that fails with a retryable status on each of
  its first \<open>N\<close> attempts and succeeds on attempt \<open>N + 1\<close>, where \<open>N\<close> is at most the
  configured maximum number of retries, \<open>withRetry\<close> returns the success value after
  \<open>N + 1\<close> invocations and \<open>N\<close> delays; and when the policy has
  \<open>0 \<le> initialDelay \<le> maxDelay\<close> and \<open>backoffFactor \<ge> 1\<close>, as the default policy has,
  the sequence of delays is non-decreasing and each delay is at most \<open>maxDelay\<close>.
  (The first delay is \<open>initialDelay\<close> itself, which the loop does not cap.)
\<close>

theorem withRetry_success_after_failures:
  assumes fails: "\<forall>k<N. \<exists>st. operation k = Inl (AxiosError (Some st))
                      \<and> st \<in> set (retryableStatuses (finalConfig config))"
    and ok: "operation N = Inr v"
    and bound: "int N \<le> maxRetries (finalConfig config)"
  shows "rr_outcome (withRetry operation config) = Inr v
       \<and> rr_attempts (withRetry operation config) = Suc N
       \<and> length (rr_delays (withRetry operation config)) = N
       \<and> (0 \<le> initialDelay (finalConfig config)
          \<and> initialDelay (finalConfig config) \<le> maxDelay (finalConfig config)
          \<and> 1 \<le> backoffFactor (finalConfig config)
          \<longrightarrow> sorted (rr_delays (withRetry operation config))
              \<and> (\<forall>d \<in> set (rr_delays (withRetry operation config)).
                    d \<le> maxDelay (finalConfig config)))"
proof -
  let ?cfg = "finalConfig config"
  have f: "\<forall>k<N. \<exists>e. operation (0 + k) = Inl e" using fails by auto
  have o: "operation (0 + N) = Inr v" using ok by simp
  have b: "0 + int N \<le> maxRetries ?cfg" using bound by simp
  have run: "withRetry operation config =
      \<lparr> rr_outcome = Inr v, rr_delays = backoffDelays ?cfg (initialDelay ?cfg) N,
        rr_attempts = Suc N \<rparr>"
    unfolding withRetry_def Let_def
    using retryLoop_success [OF f o b, of "initialDelay ?cfg" "[]"] by simp
  have "sorted (backoffDelays ?cfg (initialDelay ?cfg) N)
        \<and> (\<forall>d \<in> set (backoffDelays ?cfg (initialDelay ?cfg) N). d \<le> maxDelay ?cfg)"
    if d0: "0 \<le> initialDelay ?cfg" and dM: "initialDelay ?cfg \<le> maxDelay ?cfg"
      and f1: "1 \<le> backoffFactor ?cfg"
    using backoffDelays_sorted [OF d0 dM f1, of N] backoffDelays_bounds [OF d0 dM f1, of N]
    by simp
  then show ?thesis
    unfolding run by (simp add: backoffDelays_length)
qed

theorem withRetry_success_after_failures_witness:
  "rr_outcome (withRetry flaky emptyConfig) = Inr 7
   \<and> rr_delays (withRetry flaky emptyConfig) = [1000, 2000]
   \<and> sorted (rr_delays (withRetry flaky emptyConfig))
   \<and> maxDelay (finalConfig emptyConfig) = 5000"
proof -
  have cfg: "finalConfig emptyConfig = DEFAULT_RETRY_CONFIG"
    by (simp add: finalConfig_def emptyConfig_def)
  have fails: "\<forall>k<2. \<exists>st. flaky k = Inl (AxiosError (Some st))
                      \<and> st \<in> set (retryableStatuses (finalConfig emptyConfig))"
    by (simp add: flaky_def cfg DEFAULT_RETRY_CONFIG_def)
  have ok: "flaky 2 = Inr 7" by (simp add: flaky_def)
  have bound: "int 2 \<le> maxRetries (finalConfig emptyConfig)"
    by (simp add: cfg DEFAULT_RETRY_CONFIG_def)
  have policy: "0 \<le> initialDelay (finalConfig emptyConfig)
      \<and> initialDelay (finalConfig emptyConfig) \<le> maxDelay (finalConfig emptyConfig)
      \<and> 1 \<le> backoffFactor (finalConfig emptyConfig)"
    by (simp add: cfg DEFAULT_RETRY_CONFIG_def)
  have run: "rr_delays (withRetry flaky emptyConfig) = [1000, 2000]"
    by (simp add: withRetry_def cfg DEFAULT_RETRY_CONFIG_def flaky_def)
  have m: "maxDelay (finalConfig emptyConfig) = 5000"
    by (simp add: cfg DEFAULT_RETRY_CONFIG_def)
  from withRetry_success_after_failures [OF fails ok bound] policy run m
  show ?thesis by simp
qed

theorem withRetry_delays_counterexample:
  "rr_outcome (withRetry flaky (emptyConfig \<lparr> initialDelay_opt := Some 10000 \<rparr>)) = Inr 7
   \<and> rr_delays (withRetry flaky (emptyConfig \<lparr> initialDelay_opt := Some 10000 \<rparr>)) = [10000, 5000]
   \<and> maxDelay (finalConfig (emptyConfig \<lparr> initialDelay_opt := Some 10000 \<rparr>)) = 5000
   \<and> \<not> sorted (rr_delays (withRetry flaky (emptyConfig \<lparr> initialDelay_opt := Some 10000 \<rparr>)))"
  by (simp add: withRetry_def finalConfig_def emptyConfig_def DEFAULT_RETRY_CONFIG_def flaky_def)

section \<open>Bounded TTL cache\<close>

lemma map_get_set: "map_get k (map_set k v m) = Some v"
  by (simp add: map_get_def map_set_def update_conv')

lemma map_get_delete: "map_get k (map_delete k m) = None"
  by (simp add: map_get_def map_delete_def delete_conv')

lemma cache_set_entry:
  assumes "cache_set t0 key v c = Inr c'"
  shows "map_get key (cache c') = Some \<lparr> entry_value = v, expiresAt = t0 + ttl c \<rparr>"
  using assms
  by (auto simp: cache_set_def map_get_set split: if_splits sum.splits)

text \<open>
  Claim C6, as amended. For every key and value stored by \<open>Cache.set\<close> with time-to-live
  \<open>T\<close>, a \<open>get\<close> of that key on the resulting cache at time \<open>t \<le> T\<close> after insertion
  returns the stored value and leaves the cache unchanged, and a \<open>get\<close> at time
  \<open>t > T\<close> after insertion reports a miss and deletes the entry. (The entry is still
  served at \<open>t = T\<close>: the test is \<open>Date.now() > expiresAt\<close>.)
\<close>

theorem cache_get_after_set:
  assumes "cache_set t0 key v c = Inr c'"
  shows "(t \<le> ttl c \<longrightarrow> cache_get (t0 + t) key c' = (Some v, c'))
       \<and> (ttl c < t \<longrightarrow> fst (cache_get (t0 + t) key c') = None
                        \<and> map_get key (cache (snd (cache_get (t0 + t) key c'))) = None)"
  using cache_set_entry [OF assms]
  by (simp add: cache_get_def map_get_delete)

theorem cache_get_after_set_witness:
  "cache_set 0 ''k'' (7::nat) (newCache 1000 None)
     = Inr \<lparr> cache = [(''k'', \<lparr> entry_value = 7, expiresAt = 1000 \<rparr>)], ttl = 1000, maxSize = 1000 \<rparr>
   \<and> fst (cache_get (0 + 999) ''k''
        \<lparr> cache = [(''k'', \<lparr> entry_value = 7::nat, expiresAt = 1000 \<rparr>)], ttl = 1000, maxSize = 1000 \<rparr>)
       = Some 7
   \<and> fst (cache_get (0 + 1001) ''k''
        \<lparr> cache = [(''k'', \<lparr> entry_value = 7::nat, expiresAt = 1000 \<rparr>)], ttl = 1000, maxSize = 1000 \<rparr>)
       = None"
proof -
  let ?c = "newCache 1000 None :: nat Cache"
  let ?c' = "\<lparr> cache = [(''k'', \<lparr> entry_value = 7::nat, expiresAt = 1000 \<rparr>)],
              ttl = 1000, maxSize = 1000 \<rparr>"
  have s: "cache_set 0 ''k'' (7::nat) ?c = Inr ?c'"
    by (simp add: cache_set_def newCache_def map_set_def)
  have t: "ttl ?c = 1000" by (simp add: newCache_def)
  from cache_get_after_set [OF s, of 999] cache_get_after_set [OF s, of 1001] s t
  show ?thesis by simp
qed

theorem cache_get_at_expiry_counterexample:
  "cache_set 0 ''k'' (7::nat) (newCache 1000 None)
     = Inr \<lparr> cache = [(''k'', \<lparr> entry_value = 7, expiresAt = 1000 \<rparr>)], ttl = 1000, maxSize = 1000 \<rparr>
   \<and> cache_get 1000 ''k''
        \<lparr> cache = [(''k'', \<lparr> entry_value = 7::nat, expiresAt = 1000 \<rparr>)], ttl = 1000, maxSize = 1000 \<rparr>
       = (Some 7,
          \<lparr> cache = [(''k'', \<lparr> entry_value = 7, expiresAt = 1000 \<rparr>)], ttl = 1000, maxSize = 1000 \<rparr>)"
  by (simp add: cache_set_def cache_get_def newCache_def map_set_def map_get_def)

lemma foldl_oldest:
  fixes e :: "string \<times> 'a CacheEntry"
  defines "f \<equiv> (\<lambda>oldest current.
                 if expiresAt (snd current) < expiresAt (snd oldest) then current else oldest)"
  shows "foldl f e es \<in> set (e # es)
       \<and> (\<forall>x \<in> set (e # es). expiresAt (snd (foldl f e es)) \<le> expiresAt (snd x))"
proof (induction es arbitrary: e)
  case Nil
  then show ?case by simp
next
  case (Cons a es)
  show ?case
  proof (cases "expiresAt (snd a) < expiresAt (snd e)")
    case True
    then have "foldl f e (a # es) = foldl f a es" by (simp add: f_def)
    with Cons.IH [of a] True show ?thesis by fastforce
  next
    case False
    then have "foldl f e (a # es) = foldl f e es" by (simp add: f_def)
    with Cons.IH [of e] False show ?thesis by fastforce
  qed
qed

lemma oldestEntry_min:
  assumes "entries \<noteq> []"
  shows "\<exists>victim. oldestEntry entries = Inr victim \<and> victim \<in> set entries
           \<and> (\<forall>x \<in> set entries. expiresAt (snd victim) \<le> expiresAt (snd x))"
proof (cases entries)
  case Nil
  with assms show ?thesis by simp
next
  case (Cons e es)
  with foldl_oldest [of e es] show ?thesis
    by (simp add: oldestEntry_def)
qed

lemma delete_distinct_remove1:
  assumes "distinct (map fst xs)" and "p \<in> set xs"
  shows "AList.delete (fst p) xs = remove1 p xs"
  using assms
proof (induction xs)
  case Nil
  then show ?case by simp
next
  case (Cons a xs)
  show ?case
  proof (cases "a = p")
    case True
    with Cons.prems(1) have "fst p \<notin> fst ` set xs" by auto
    then have "AList.delete (fst p) xs = xs"
      by (simp add: delete_id)
    with True show ?thesis by simp
  next
    case False
    with Cons.prems(2) have in_xs: "p \<in> set xs" by simp
    with Cons.prems(1) have "fst a \<noteq> fst p" by force
    with Cons.IH in_xs Cons.prems(1) False show ?thesis by simp
  qed
qed

lemma update_fresh_append:
  assumes "k \<notin> fst ` set xs"
  shows "AList.update k v xs = xs @ [(k, v)]"
  using assms by (induction xs) auto

text \<open>
  Claim C7. When \<open>Cache.set\<close> is called with a fresh key while the cache holds its
  maximum number of entries (or more, and at least one), exactly one entry is evicted, its
  expiry timestamp is the earliest in the cache, every other entry stays, and the new
  entry is present afterwards.
\<close>

theorem cache_set_full_evicts_earliest:
  assumes keys: "distinct (map fst (cache c))"
    and fresh: "key \<notin> fst ` set (cache c)"
    and full: "maxSize c \<le> int (length (cache c))"
    and nonempty: "cache c \<noteq> []"
  shows "\<exists>victim c'. cache_set now key v c = Inr c'
           \<and> victim \<in> set (cache c)
           \<and> (\<forall>x \<in> set (cache c). expiresAt (snd victim) \<le> expiresAt (snd x))
           \<and> cache c' = remove1 victim (cache c)
                          @ [(key, \<lparr> entry_value = v, expiresAt = now + ttl c \<rparr>)]
           \<and> victim \<notin> set (cache c')
           \<and> (\<forall>x \<in> set (cache c). x \<noteq> victim \<longrightarrow> x \<in> set (cache c'))
           \<and> map_get key (cache c') = Some \<lparr> entry_value = v, expiresAt = now + ttl c \<rparr>
           \<and> length (cache c') = length (cache c)"
proof -
  from oldestEntry_min [OF nonempty] obtain victim where
    o: "oldestEntry (cache c) = Inr victim" and
    vin: "victim \<in> set (cache c)" and
    vmin: "\<forall>x \<in> set (cache c). expiresAt (snd victim) \<le> expiresAt (snd x)"
    by blast
  let ?new = "\<lparr> entry_value = v, expiresAt = now + ttl c \<rparr>"
  let ?rest = "remove1 victim (cache c)"
  have del: "map_delete (fst victim) (cache c) = ?rest"
    using delete_distinct_remove1 [OF keys vin] by (simp add: map_delete_def)
  have "fst ` set ?rest \<subseteq> fst ` set (cache c)"
    using set_remove1_subset [of victim "cache c"] by blast
  with fresh have fresh': "key \<notin> fst ` set ?rest" by blast
  have upd: "map_set key ?new ?rest = ?rest @ [(key, ?new)]"
    using update_fresh_append [OF fresh'] by (simp add: map_set_def)
  let ?c' = "c \<lparr> cache := ?rest @ [(key, ?new)] \<rparr>"
  have run: "cache_set now key v c = Inr ?c'"
    using full o del upd by (simp add: cache_set_def)
  have dist: "distinct (cache c)" using keys by (rule distinct_map [THEN iffD1, THEN conjunct1])
  have notkey: "fst victim \<noteq> key" using vin fresh by force
  have gone: "victim \<notin> set (cache ?c')"
    using dist notkey by auto
  have kept: "\<forall>x \<in> set (cache c). x \<noteq> victim \<longrightarrow> x \<in> set (cache ?c')"
    by simp
  have present: "map_get key (cache ?c') = Some ?new"
    using map_get_set [of key ?new ?rest] upd by simp
  have len: "length (cache ?c') = length (cache c)"
    using vin nonempty by (simp add: length_remove1 Suc_pred)
  from run vin vmin gone kept present len show ?thesis
    by (intro exI [of _ victim] exI [of _ ?c']) simp
qed

theorem cache_set_full_evicts_earliest_witness:
  "distinct (map fst (cache fullCache))
   \<and> maxSize fullCache \<le> int (length (cache fullCache))
   \<and> (\<exists>victim c'. cache_set 10 ''c'' 3 fullCache = Inr c'
          \<and> victim \<in> set (cache fullCache)
          \<and> cache c' = remove1 victim (cache fullCache)
                         @ [(''c'', \<lparr> entry_value = 3, expiresAt = 10 + ttl fullCache \<rparr>)])
   \<and> cache_set 10 ''c'' 3 fullCache
       = Inr \<lparr> cache = [(''a'', \<lparr> entry_value = 1, expiresAt = 50 \<rparr>),
                       (''c'', \<lparr> entry_value = 3, expiresAt = 110 \<rparr>)],
               ttl = 100, maxSize = 2 \<rparr>"
proof -
  have keys: "distinct (map fst (cache fullCache))" by (simp add: fullCache_def)
  have fresh: "''c'' \<notin> fst ` set (cache fullCache)" by (simp add: fullCache_def)
  have full: "maxSize fullCache \<le> int (length (cache fullCache))" by (simp add: fullCache_def)
  have nonempty: "cache fullCache \<noteq> []" by (simp add: fullCache_def)
  from cache_set_full_evicts_earliest [OF keys fresh full nonempty, of 10 3]
  have ex: "\<exists>victim c'. cache_set 10 ''c'' 3 fullCache = Inr c'
          \<and> victim \<in> set (cache fullCache)
          \<and> cache c' = remove1 victim (cache fullCache)
                         @ [(''c'', \<lparr> entry_value = 3, expiresAt = 10 + ttl fullCache \<rparr>)]"
    by blast
  have run: "cache_set 10 ''c'' 3 fullCache
       = Inr \<lparr> cache = [(''a'', \<lparr> entry_value = 1, expiresAt = 50 \<rparr>),
                       (''c'', \<lparr> entry_value = 3, expiresAt = 110 \<rparr>)],
               ttl = 100, maxSize = 2 \<rparr>"
    by (simp add: cache_set_def oldestEntry_def fullCache_def map_set_def map_delete_def)
  from keys full ex run show ?thesis by blast
qed

section \<open>Fuzzy correction of the delivery-mode code\<close>








section \<open>Tool execution: unfolding lemmas\<close>

lemma callTool_calls:
  assumes "callTool env w c = (r, w')"
  shows "calls w' = calls w @ [(c, r)]"
  using assms by (auto simp: callTool_def Let_def split: prod.splits sum.splits)

lemma executeTool_get_delivery_modes:
  assumes "tc_name tc = ''get-delivery-modes''"
  shows "executeTool env tc conv tok st w =
           (case callTool env w
                   \<lparr> mc_name = ''get-delivery-modes'',
                     mc_arguments = JObj [(''cartId'', storedCart st conv),
                                          (''userAccessToken'', tokenArg tok)] \<rparr> of
              (result, w') \<Rightarrow>
                if \<not> isError result
                then (Inr result, storeDeliveryModes env conv [content result] st, w')
                else (Inr result, st, w'))"
  using assms by (simp add: executeTool_def Let_def)

lemma executeTool_place_order:
  assumes "tc_name tc = ''place-order''" and "\<not> nullish (tc_input tc)"
  shows "executeTool env tc conv tok st w =
           (case callTool env w
                   \<lparr> mc_name = ''place-order'',
                     mc_arguments =
                       JObj [(''cartId'', js_or (optProp (tc_input tc) ''cartId'') (storedCart st conv)),
                             (''userAccessToken'', tokenArg tok)] \<rparr> of
              (result, w') \<Rightarrow>
                if truthy (js_or (optProp (tc_input tc) ''cartId'') (storedCart st conv))
                then (Inr result,
                      st \<lparr> cartsByConversation := (cartsByConversation st)(conv := None) \<rparr>, w')
                else (Inr result, st, w'))"
  using assms by (simp add: executeTool_def Let_def)

lemma executeTool_set_delivery_address:
  assumes "tc_name tc = ''set-delivery-address''" and "\<not> nullish (tc_input tc)"
  shows "executeTool env tc conv tok st w =
           (if \<not> truthy (storedCart st conv)
            then (Inr \<lparr> content = stringified env noCartError, isError = True \<rparr>, st, w)
            else relay env st w ''set-delivery-address''
                   [(''cartId'', storedCart st conv),
                    (''address'', addressPayload (tc_input tc)),
                    (''userAccessToken'', tokenArg tok)])"
  using assms by (simp add: executeTool_def Let_def)

lemma executeTool_add_to_cart_given:
  assumes "tc_name tc = ''add-to-cart''" and "\<not> nullish (tc_input tc)"
    and "truthy (js_or (optProp (tc_input tc) ''cartId'') (storedCart st conv))"
  shows "executeTool env tc conv tok st w =
           relay env st w ''add-to-cart''
             [(''cartId'', js_or (optProp (tc_input tc) ''cartId'') (storedCart st conv)),
              (''productCode'', optProp (tc_input tc) ''productCode''),
              (''quantity'', js_or (optProp (tc_input tc) ''quantity'') (JNum 1)),
              (''userAccessToken'', tokenArg tok)]"
  using assms by (simp add: executeTool_def Let_def)


lemma relay_calls:
  assumes "relay env st w name args = (out, st', w')"
  shows "\<exists>r. out = Inr r \<and> st' = st
             \<and> calls w' = calls w @ [(\<lparr> mc_name = name, mc_arguments = JObj args \<rparr>, r)]"
  using assms callTool_calls [of env w "\<lparr> mc_name = name, mc_arguments = JObj args \<rparr>"]
  by (auto simp: relay_def split: prod.splits)







lemma providerCall_calls:
  assumes "providerCall env w req = (out, w1)"
  shows "calls w1 = calls w"
  using assms by (auto simp: providerCall_def split: prod.splits)











lemma finishTurn_state:
  "\<exists>outcome w'. finishTurn env conv history sp ai t = (outcome, tp_state t, w')
                \<and> calls w' = calls (tp_world t)"
proof -
  obtain out2 w3 where
    second: "providerCall env (tp_world t) (secondRequest env history sp ai t) = (out2, w3)"
    by (cases "providerCall env (tp_world t) (secondRequest env history sp ai t)") auto
  have c: "calls w3 = calls (tp_world t)" using providerCall_calls [OF second] .
  have "\<exists>outcome. finishTurn env conv history sp ai t = (outcome, tp_state t, w3)"
    unfolding finishTurn_def using second by (cases out2) simp_all
  with c show ?thesis by blast
qed


lemma executeTool_set_payment_details:
  assumes "tc_name tc = ''set-payment-details''" and "\<not> nullish (tc_input tc)"
    and "\<not> nullish (optProp (tc_input tc) ''billingAddress'')"
  shows "executeTool env tc conv tok st w =
           relay env st w ''set-payment-details''
             [(''cartId'', storedCart st conv),
              (''paymentDetails'',
               JObj [(''accountHolderName'', optProp (tc_input tc) ''accountHolderName''),
                     (''cardNumber'', optProp (tc_input tc) ''cardNumber''),
                     (''cardType'', JObj [(''code'', optProp (tc_input tc) ''cardTypeCode'')]),
                     (''expiryMonth'', optProp (tc_input tc) ''expiryMonth''),
                     (''expiryYear'', optProp (tc_input tc) ''expiryYear''),
                     (''cvv'', optProp (tc_input tc) ''cvv''),
                     (''billingAddress'',
                      billingAddressPayload (optProp (tc_input tc) ''billingAddress''))]),
              (''userAccessToken'', tokenArg tok)]"
  using assms by (simp add: executeTool_def Let_def)

lemma executeTool_get_order_history:
  assumes "tc_name tc = ''get-order-history''" and "\<not> nullish (tc_input tc)"
  shows "executeTool env tc conv tok st w =
           relay env st w ''get-order-history''
             [(''pageSize'', optProp (tc_input tc) ''pageSize''),
              (''currentPage'', optProp (tc_input tc) ''currentPage''),
              (''userAccessToken'', tokenArg tok)]"
  using assms by (simp add: executeTool_def Let_def)

lemma executeTool_place_order_null:
  assumes "tc_name tc = ''place-order''" and "nullish (tc_input tc)"
  shows "executeTool env tc conv tok st w = (Inl TypeError, st, w)"
  using assms by (simp add: executeTool_def Let_def)

lemma executeTool_get_cart_none:
  assumes "tc_name tc = ''get-cart''" and "\<not> nullish (tc_input tc)"
    and "\<not> truthy (js_or (optProp (tc_input tc) ''cartId'') (storedCart st conv))"
  shows "executeTool env tc conv tok st w =
           (Inr \<lparr> content = stringified env emptyCartMessage, isError = False \<rparr>, st, w)"
  using assms by (simp add: executeTool_def Let_def)

lemma executeTool_add_to_cart_create:
  assumes "tc_name tc = ''add-to-cart''" and "\<not> nullish (tc_input tc)"
    and "\<not> truthy (js_or (optProp (tc_input tc) ''cartId'') (storedCart st conv))"
  shows "executeTool env tc conv tok st w =
           (case callTool env w
                   \<lparr> mc_name = ''create-cart'',
                     mc_arguments = JObj [(''userAccessToken'', tokenArg tok)] \<rparr> of
              (cartResult, w') \<Rightarrow>
                (case createdCartId env cartResult of
                   Inl err \<Rightarrow> (Inl err, st, w')
                 | Inr newCartId \<Rightarrow>
                     relay env
                       (st \<lparr> cartsByConversation :=
                               (cartsByConversation st)(conv \<mapsto> newCartId) \<rparr>)
                       w' ''add-to-cart''
                       [(''cartId'', newCartId),
                        (''productCode'', optProp (tc_input tc) ''productCode''),
                        (''quantity'', js_or (optProp (tc_input tc) ''quantity'') (JNum 1)),
                        (''userAccessToken'', tokenArg tok)]))"
  using assms by (simp add: executeTool_def Let_def)

section \<open>Concrete runs in the scripted shop\<close>

lemma env_fields:
  "client_callTool (shopEnv tcs answer) = shopBackend"
  "JSON_parse (shopEnv tcs answer) = shopParse"
  "JSON_stringify (shopEnv tcs answer) = shopStringify"
  "errorMessage (shopEnv tcs answer) = (\<lambda>e. ''error'')"
  "unicodeLower (shopEnv tcs answer) = latin1Lower"
  "parseProducts (shopEnv tcs answer) = (\<lambda>v. [])"
  "uuidv4 (shopEnv tcs answer) = (\<lambda>b. (''auto'', b))"
  "sendMessage (shopEnv tcs answer) = scriptedProvider tcs answer"
  "providerName (shopEnv tcs answer) = ''claude''"
  by (simp_all add: shopEnv_def)

lemmas exec_simps = env_fields shopBackend_def shopParse_def shopStringify_def
  cartState_def world0_def addressCall_def paymentCall_def orderCall_def reorderCall_def
  addCall_def addWithCartCall_def historyCall_def callSummary_def
  executeOne_def
  executeTool_set_delivery_address executeTool_set_payment_details executeTool_place_order
  executeTool_get_delivery_modes executeTool_get_order_history
  executeTool_add_to_cart_given executeTool_add_to_cart_create
  relay_def callTool_def storedCart_def optIncludes_def contentStr_def tokenArg_def
  js_or_def deliveryModesIn_def stringified_def Let_def createdCartId_def
  parseCartData_def



section \<open>Auto-chaining after set-delivery-address\<close>




section \<open>Cart lifecycle\<close>

lemma createdCartId_truthy:
  assumes "createdCartId env r = Inr newCartId"
  shows "truthy newCartId"
  using assms by (auto simp: createdCartId_def Let_def split: sum.splits if_splits)

lemma js_or_falsy:
  assumes "\<not> truthy (js_or a b)"
  shows "\<not> truthy b"
  using assms by (simp add: js_or_def split: if_splits)

text \<open>
  Every stored cart id is truthy: this holds of the initial state and is kept by every
  tool execution, hence by every turn.
\<close>

lemma storeDeliveryModes_carts:
  "cartsByConversation (storeDeliveryModes env conv cs st) = cartsByConversation st"
  by (induction cs arbitrary: st) (auto split: sum.splits option.splits)

lemma relay_state:
  assumes "relay env st w name args = (out, st', w')"
  shows "st' = st"
  using assms by (auto simp: relay_def split: prod.splits)

lemma executeTool_cartIdsTruthy:
  assumes "cartIdsTruthy st" and "executeTool env tc conv tok st w = (out, st', w')"
  shows "cartIdsTruthy st'"
proof -
  have keep: "\<And>x. cartsByConversation x = cartsByConversation st \<Longrightarrow> cartIdsTruthy x"
    using assms(1) by (simp add: cartIdsTruthy_def)
  have del: "cartIdsTruthy (st \<lparr> cartsByConversation := (cartsByConversation st)(conv := None) \<rparr>)"
    using assms(1) by (simp add: cartIdsTruthy_def)
  have upd: "\<And>v. truthy v \<Longrightarrow>
     cartIdsTruthy (st \<lparr> cartsByConversation := (cartsByConversation st)(conv \<mapsto> v) \<rparr>)"
    using assms(1) by (simp add: cartIdsTruthy_def)
  show ?thesis
    using assms(2) keep [of st] del upd
    by (auto simp: executeTool_def Let_def relay_def storeDeliveryModes_carts
             simp del: storeDeliveryModes.simps
             dest: createdCartId_truthy intro: keep
             split: if_splits prod.splits sum.splits)
qed


lemma executeOne_cartIdsTruthy:
  assumes "cartIdsTruthy st" and "executeOne env tc conv tok st w = (r, st', w')"
  shows "cartIdsTruthy st'"
proof -
  obtain out s1 w1 where e: "executeTool env tc conv tok st w = (out, s1, w1)"
    by (cases "executeTool env tc conv tok st w") auto
  with assms(2) have "st' = s1"
    by (cases out) (auto simp: executeOne_def split: if_splits)
  with executeTool_cartIdsTruthy [OF assms(1) e] show ?thesis by simp
qed

lemma executeMCPTools_cartIdsTruthy:
  assumes "cartIdsTruthy st"
  shows "cartIdsTruthy (fst (snd (executeMCPTools env tcs conv tok st w)))"
  using assms
proof (induction tcs arbitrary: st w)
  case Nil
  then show ?case by simp
next
  case (Cons tc tcs)
  obtain r s1 w1 where one: "executeOne env tc conv tok st w = (r, s1, w1)"
    by (cases "executeOne env tc conv tok st w") auto
  obtain rs s2 w2 where rest: "executeMCPTools env tcs conv tok s1 w1 = (rs, s2, w2)"
    by (cases "executeMCPTools env tcs conv tok s1 w1") auto
  have "cartIdsTruthy s1" using executeOne_cartIdsTruthy [OF Cons.prems one] .
  from Cons.IH [OF this, of w1] rest have "cartIdsTruthy s2" by simp
  with one rest show ?case by simp
qed

lemma triggerPlaceOrder_state:
  "tp_state (triggerPlaceOrder env conv tok t) = tp_state t
   \<or> (\<exists>uid w1. tp_state (triggerPlaceOrder env conv tok t) =
         fst (snd (executeMCPTools env
                     [\<lparr> tc_id = uid, tc_name = ''place-order'', tc_input = JObj [] \<rparr>]
                     conv tok (tp_state t) w1)))"
proof (cases "''set-payment-details'' \<in> set (tp_toolsUsed t)
              \<and> (\<exists>pr. findResultOf ''set-payment-details'' (tp_toolCalls t) (tp_toolResults t)
                          = Some pr \<and> r_error pr = None)")
  case False
  then have "triggerPlaceOrder env conv tok t = t"
    by (auto simp: triggerPlaceOrder_def split: option.splits)
  then show ?thesis by simp
next
  case True
  obtain uid w1 where fid: "freshId env (tp_world t) = (uid, w1)"
    by (cases "freshId env (tp_world t)") auto
  let ?po = "\<lparr> tc_id = uid, tc_name = ''place-order'', tc_input = JObj [] \<rparr>"
  obtain rs s2 w2 where run: "executeMCPTools env [?po] conv tok (tp_state t) w1 = (rs, s2, w2)"
    by (cases "executeMCPTools env [?po] conv tok (tp_state t) w1") auto
  have "tp_state (triggerPlaceOrder env conv tok t) = s2"
    unfolding triggerPlaceOrder_def
    using True fid run by (auto simp: Let_def simp del: executeMCPTools.simps)
  with run have "tp_state (triggerPlaceOrder env conv tok t) =
         fst (snd (executeMCPTools env [?po] conv tok (tp_state t) w1))" by simp
  then show ?thesis by blast
qed

lemma triggerPlaceOrder_cartIdsTruthy:
  assumes "cartIdsTruthy (tp_state t)"
  shows "cartIdsTruthy (tp_state (triggerPlaceOrder env conv tok t))"
  using triggerPlaceOrder_state [of env conv tok t] assms
        executeMCPTools_cartIdsTruthy [OF assms]
  by metis

lemma triggerDeliveryModes_state:
  "tp_state (triggerDeliveryModes env conv tok t) = tp_state t
   \<or> (\<exists>uid w1 cs. tp_state (triggerDeliveryModes env conv tok t) =
         storeDeliveryModes env conv cs
           (fst (snd (executeMCPTools env
                        [\<lparr> tc_id = uid, tc_name = ''get-delivery-modes'', tc_input = JObj [] \<rparr>]
                        conv tok (tp_state t) w1))))"
proof (cases "''set-delivery-address'' \<in> set (tp_toolsUsed t)
              \<and> (\<exists>ar. findResultOf ''set-delivery-address'' (tp_toolCalls t) (tp_toolResults t)
                          = Some ar \<and> r_error ar = None)")
  case False
  then have "triggerDeliveryModes env conv tok t = t"
    by (auto simp: triggerDeliveryModes_def split: option.splits)
  then show ?thesis by simp
next
  case True
  obtain uid w1 where fid: "freshId env (tp_world t) = (uid, w1)"
    by (cases "freshId env (tp_world t)") auto
  let ?gdm = "\<lparr> tc_id = uid, tc_name = ''get-delivery-modes'', tc_input = JObj [] \<rparr>"
  obtain rs s2 w2 where run: "executeMCPTools env [?gdm] conv tok (tp_state t) w1 = (rs, s2, w2)"
    by (cases "executeMCPTools env [?gdm] conv tok (tp_state t) w1") auto
  have "tp_state (triggerDeliveryModes env conv tok t)
          = storeDeliveryModes env conv (map r_content rs) s2"
    unfolding triggerDeliveryModes_def
    using True fid run
    by (auto simp: Let_def simp del: executeMCPTools.simps storeDeliveryModes.simps)
  with run have "tp_state (triggerDeliveryModes env conv tok t) =
         storeDeliveryModes env conv (map r_content rs)
           (fst (snd (executeMCPTools env [?gdm] conv tok (tp_state t) w1)))" by simp
  then show ?thesis by blast
qed

lemma storeDeliveryModes_cartIdsTruthy:
  "cartIdsTruthy (storeDeliveryModes env conv cs st) = cartIdsTruthy st"
  by (simp add: cartIdsTruthy_def storeDeliveryModes_carts)

lemma triggerDeliveryModes_cartIdsTruthy:
  assumes "cartIdsTruthy (tp_state t)"
  shows "cartIdsTruthy (tp_state (triggerDeliveryModes env conv tok t))"
  using triggerDeliveryModes_state [of env conv tok t] assms
        executeMCPTools_cartIdsTruthy [OF assms]
  by (metis storeDeliveryModes_cartIdsTruthy)

lemma toolPhase_cartIdsTruthy:
  assumes "cartIdsTruthy st"
  shows "cartIdsTruthy (tp_state (toolPhase env conv tok tcs st w))"
proof -
  obtain rs s1 w1 where e: "executeMCPTools env tcs conv tok st w = (rs, s1, w1)"
    by (cases "executeMCPTools env tcs conv tok st w") auto
  have "cartIdsTruthy s1"
    using executeMCPTools_cartIdsTruthy [OF assms, of env tcs conv tok w] e by simp
  then show ?thesis
    unfolding toolPhase_def e
    by (simp add: triggerDeliveryModes_cartIdsTruthy triggerPlaceOrder_cartIdsTruthy)
qed

lemma finishTurn_cartIdsTruthy:
  assumes "cartIdsTruthy (tp_state t)"
  shows "cartIdsTruthy (fst (snd (finishTurn env conv history sp ai t)))"
  using finishTurn_state [of env conv history sp ai t] assms by auto

lemma handleChatMessage_cartIdsTruthy:
  assumes "cartIdsTruthy st"
  shows "cartIdsTruthy
           (fst (snd (handleChatMessage env conv tok history sp tools choice st w)))"
  using assms finishTurn_cartIdsTruthy [OF toolPhase_cartIdsTruthy [OF assms]]
  by (auto simp: handleChatMessage_def split: prod.splits sum.splits
        option.splits list.splits)

lemma initialState_cartIdsTruthy: "cartIdsTruthy initialState"
  by (simp add: cartIdsTruthy_def initialState_def)

text \<open>
  Claim C2, as amended. In every state in which the stored cart ids are truthy values
  (every reachable state, by the lemmas above), after a place-order tool execution that
  returns a result the conversation's stored cart id is cleared. A subsequent add-to-cart call in the same conversation that
  carries no cart id of its own first issues a create-cart call; when a cart id can be
  read from that result it is stored for the conversation and the item is added to that
  cart, and otherwise the call fails with nothing stored. (A conversation holds at most
  one cart id at any time: the store is a map from conversation ids to cart ids.)
\<close>

theorem cart_cleared_then_created:
  assumes inv: "cartIdsTruthy st"
    and po: "tc_name po = ''place-order''"
    and run: "executeTool env po conv tok st w = (Inr result, st1, w1)"
    and atc: "tc_name atc = ''add-to-cart''"
    and obj: "\<not> nullish (tc_input atc)"
    and own: "\<not> truthy (optProp (tc_input atc) ''cartId'')"
    and later: "cartsByConversation st2 conv = None"
    and run2: "executeTool env atc conv tok st2 w2 = (out, st3, w3)"
  shows "cartsByConversation st1 conv = None
       \<and> (\<exists>created rest.
             calls w3 = calls w2 @
               (\<lparr> mc_name = ''create-cart'',
                  mc_arguments = JObj [(''userAccessToken'', tokenArg tok)] \<rparr>, created) # rest
           \<and> (case out of
                 Inl err \<Rightarrow> rest = [] \<and> st3 = st2 \<and> createdCartId env created = Inl err
               | Inr added \<Rightarrow>
                   (\<exists>newCartId.
                      createdCartId env created = Inr newCartId \<and> truthy newCartId
                    \<and> cartsByConversation st3 conv = Some newCartId
                    \<and> rest = [(\<lparr> mc_name = ''add-to-cart'',
                                 mc_arguments =
                                   JObj [(''cartId'', newCartId),
                                         (''productCode'', optProp (tc_input atc) ''productCode''),
                                         (''quantity'',
                                          js_or (optProp (tc_input atc) ''quantity'') (JNum 1)),
                                         (''userAccessToken'', tokenArg tok)] \<rparr>, added)])))"
proof
  show "cartsByConversation st1 conv = None"
  proof (cases "nullish (tc_input po)")
    case True
    with run executeTool_place_order_null [OF po True, of env conv tok st w]
    show ?thesis by simp
  next
    case False
    let ?id = "js_or (optProp (tc_input po) ''cartId'') (storedCart st conv)"
    show ?thesis
    proof (cases "truthy ?id")
      case True
      with run show ?thesis
        unfolding executeTool_place_order [OF po False] by (auto split: prod.splits)
    next
      case nt: False
      with run have same: "st1 = st"
        unfolding executeTool_place_order [OF po False] by (auto split: prod.splits)
      from nt have "\<not> truthy (storedCart st conv)" by (rule js_or_falsy)
      with inv have "cartsByConversation st conv = None"
        by (cases "cartsByConversation st conv") (auto simp: storedCart_def cartIdsTruthy_def)
      with same show ?thesis by simp
    qed
  qed
next
  let ?c = "\<lparr> mc_name = ''create-cart'',
              mc_arguments = JObj [(''userAccessToken'', tokenArg tok)] \<rparr>"
  have none: "\<not> truthy (js_or (optProp (tc_input atc) ''cartId'') (storedCart st2 conv))"
    using own later by (simp add: js_or_def storedCart_def)
  obtain created wc where ct: "callTool env w2 ?c = (created, wc)"
    by (cases "callTool env w2 ?c") auto
  have cc: "calls wc = calls w2 @ [(?c, created)]" using callTool_calls [OF ct] .
  note unfold = executeTool_add_to_cart_create [OF atc obj none, of env tok w2]
  show "\<exists>created rest.
             calls w3 = calls w2 @ (?c, created) # rest
           \<and> (case out of
                 Inl err \<Rightarrow> rest = [] \<and> st3 = st2 \<and> createdCartId env created = Inl err
               | Inr added \<Rightarrow>
                   (\<exists>newCartId.
                      createdCartId env created = Inr newCartId \<and> truthy newCartId
                    \<and> cartsByConversation st3 conv = Some newCartId
                    \<and> rest = [(\<lparr> mc_name = ''add-to-cart'',
                                 mc_arguments =
                                   JObj [(''cartId'', newCartId),
                                         (''productCode'', optProp (tc_input atc) ''productCode''),
                                         (''quantity'',
                                          js_or (optProp (tc_input atc) ''quantity'') (JNum 1)),
                                         (''userAccessToken'', tokenArg tok)] \<rparr>, added)]))"
  proof (cases "createdCartId env created")
    case (Inl err)
    with run2 unfold ct have "out = Inl err" "st3 = st2" "w3 = wc" by simp_all
    with cc Inl show ?thesis by (intro exI [of _ created] exI [of _ "[]"]) simp
  next
    case (Inr newCartId)
    let ?st = "st2 \<lparr> cartsByConversation := (cartsByConversation st2)(conv \<mapsto> newCartId) \<rparr>"
    let ?args = "[(''cartId'', newCartId),
                  (''productCode'', optProp (tc_input atc) ''productCode''),
                  (''quantity'', js_or (optProp (tc_input atc) ''quantity'') (JNum 1)),
                  (''userAccessToken'', tokenArg tok)]"
    from run2 unfold ct Inr have r: "relay env ?st wc ''add-to-cart'' ?args = (out, st3, w3)"
      by simp
    from relay_calls [OF r] obtain added where
      a: "out = Inr added" "st3 = ?st"
         "calls w3 = calls wc @ [(\<lparr> mc_name = ''add-to-cart'', mc_arguments = JObj ?args \<rparr>, added)]"
      by blast
    have t: "truthy newCartId" using createdCartId_truthy [OF Inr] .
    from a cc Inr t show ?thesis
      by (intro exI [of _ created]
            exI [of _ "[(\<lparr> mc_name = ''add-to-cart'', mc_arguments = JObj ?args \<rparr>, added)]"])
         simp
  qed
qed

lemma order_run:
  "executeTool (shopEnv [] []) orderCall ''conv'' None (cartState ''cart1'') world0
     = (Inr \<lparr> content = JStr ''ok'', isError = False \<rparr>,
        (cartState ''cart1'') \<lparr> cartsByConversation := Map.empty \<rparr>,
        \<lparr> backend = (),
          calls = [(\<lparr> mc_name = ''place-order'',
                      mc_arguments = JObj [(''cartId'', JStr ''cart1''),
                                           (''userAccessToken'', JUndefined)] \<rparr>,
                    \<lparr> content = JStr ''ok'', isError = False \<rparr>)] \<rparr>)"
  by (simp add: exec_simps)

theorem cart_cleared_then_created_witness:
  "cartsByConversation (cartState ''cart1'') ''conv'' = Some (JStr ''cart1'')
   \<and> cartsByConversation
        (fst (snd (executeTool (shopEnv [] []) orderCall ''conv'' None (cartState ''cart1'') world0)))
        ''conv'' = None
   \<and> cartsByConversation
        (fst (snd (executeMCPTools (shopEnv [] []) [orderCall, addCall] ''conv'' None
                     (cartState ''cart1'') world0))) ''conv'' = Some (JStr ''cart2'')
   \<and> map callSummary
        (calls (snd (snd (executeMCPTools (shopEnv [] []) [orderCall, addCall] ''conv'' None
                            (cartState ''cart1'') world0))))
       = [(''place-order'', JStr ''cart1'', False),
          (''create-cart'', JUndefined, False),
          (''add-to-cart'', JStr ''cart2'', False)]"
proof -
  let ?env = "shopEnv [] [] :: (unit, nat) env"
  let ?st1 = "(cartState ''cart1'') \<lparr> cartsByConversation := Map.empty \<rparr>"
  let ?w1 = "snd (snd (executeTool ?env orderCall ''conv'' None (cartState ''cart1'') world0))"
  let ?Y = "executeTool ?env addCall ''conv'' None ?st1 ?w1"
  have inv: "cartIdsTruthy (cartState ''cart1'')"
    by (simp add: cartIdsTruthy_def cartState_def)
  have po: "tc_name orderCall = ''place-order''" by (simp add: orderCall_def)
  have run: "executeTool ?env orderCall ''conv'' None (cartState ''cart1'') world0
               = (Inr \<lparr> content = JStr ''ok'', isError = False \<rparr>, ?st1, ?w1)"
    using order_run by simp
  have atc: "tc_name addCall = ''add-to-cart''" by (simp add: addCall_def)
  have obj: "\<not> nullish (tc_input addCall)" by (simp add: addCall_def)
  have own: "\<not> truthy (optProp (tc_input addCall) ''cartId'')" by (simp add: addCall_def)
  have later: "cartsByConversation ?st1 ''conv'' = None" by simp
  have run2: "?Y = (fst ?Y, fst (snd ?Y), snd (snd ?Y))" by simp
  note inst = cart_cleared_then_created [OF inv po run atc obj own later run2]
  have before: "cartsByConversation (cartState ''cart1'') ''conv'' = Some (JStr ''cart1'')"
    by (simp add: cartState_def)
  have after: "cartsByConversation
        (fst (snd (executeMCPTools ?env [orderCall, addCall] ''conv'' None
                     (cartState ''cart1'') world0))) ''conv'' = Some (JStr ''cart2'')"
    by (simp add: exec_simps)
  have trace: "map callSummary
        (calls (snd (snd (executeMCPTools ?env [orderCall, addCall] ''conv'' None
                            (cartState ''cart1'') world0))))
       = [(''place-order'', JStr ''cart1'', False),
          (''create-cart'', JUndefined, False),
          (''add-to-cart'', JStr ''cart2'', False)]"
    by (simp add: exec_simps)
  from inst before after trace order_run show ?thesis by simp
qed

theorem add_to_cart_reuses_given_cart_counterexample:
  "map callSummary
     (calls (snd (snd (executeMCPTools (shopEnv [] []) [orderCall, addWithCartCall] ''conv'' None
                         (cartState ''cart1'') world0))))
     = [(''place-order'', JStr ''cart1'', False), (''add-to-cart'', JStr ''cart1'', False)]
   \<and> cartsByConversation
        (fst (snd (executeMCPTools (shopEnv [] []) [orderCall, addWithCartCall] ''conv'' None
                     (cartState ''cart1'') world0))) ''conv'' = None"
  by (simp add: exec_simps)

section \<open>Authentication failures\<close>






section \<open>Order placement that fails\<close>

text \<open>
  Claim C9, as amended. Executing the place-order tool with a resolved cart id always
  deletes the conversation's stored cart id afterwards, whether or not the tool result is
  error-flagged, so the cart mapping is not preserved on error. A later tool call in the
  same conversation that carries no cart id of its own finds no cart: a retried
  place-order is sent without a cart id, get-cart answers that the cart is empty, and
  set-delivery-address answers that no cart exists.
\<close>

theorem place_order_clears_cart_on_error:
  assumes po: "tc_name tc = ''place-order''"
    and obj: "\<not> nullish (tc_input tc)"
    and resolved: "truthy (js_or (optProp (tc_input tc) ''cartId'') (storedCart st conv))"
    and run: "executeTool env tc conv tok st w = (out, st', w')"
  shows "(\<exists>result. out = Inr result
            \<and> calls w' = calls w @
                 [(\<lparr> mc_name = ''place-order'',
                     mc_arguments =
                       JObj [(''cartId'',
                              js_or (optProp (tc_input tc) ''cartId'') (storedCart st conv)),
                             (''userAccessToken'', tokenArg tok)] \<rparr>, result)])
       \<and> cartsByConversation st' conv = None
       \<and> (\<forall>tc2 w2. \<not> nullish (tc_input tc2) \<and> \<not> truthy (optProp (tc_input tc2) ''cartId'')
             \<longrightarrow> (tc_name tc2 = ''place-order'' \<longrightarrow>
                    executeTool env tc2 conv tok st' w2 =
                      relay env st' w2 ''place-order''
                        [(''cartId'', JUndefined), (''userAccessToken'', tokenArg tok)])
               \<and> (tc_name tc2 = ''get-cart'' \<longrightarrow>
                    executeTool env tc2 conv tok st' w2 =
                      (Inr \<lparr> content = stringified env emptyCartMessage, isError = False \<rparr>,
                       st', w2))
               \<and> (tc_name tc2 = ''set-delivery-address'' \<longrightarrow>
                    executeTool env tc2 conv tok st' w2 =
                      (Inr \<lparr> content = stringified env noCartError, isError = True \<rparr>,
                       st', w2)))"
proof -
  let ?id = "js_or (optProp (tc_input tc) ''cartId'') (storedCart st conv)"
  let ?c = "\<lparr> mc_name = ''place-order'',
              mc_arguments = JObj [(''cartId'', ?id), (''userAccessToken'', tokenArg tok)] \<rparr>"
  obtain result w1 where ct: "callTool env w ?c = (result, w1)"
    by (cases "callTool env w ?c") auto
  have ex: "executeTool env tc conv tok st w =
          (Inr result, st \<lparr> cartsByConversation := (cartsByConversation st)(conv := None) \<rparr>, w1)"
    unfolding executeTool_place_order [OF po obj] using ct resolved by simp
  with run have out: "out = Inr result"
    and st': "st' = st \<lparr> cartsByConversation := (cartsByConversation st)(conv := None) \<rparr>"
    and w': "w' = w1" by simp_all
  have cleared: "cartsByConversation st' conv = None" using st' by simp
  then have none: "storedCart st' conv = JUndefined" by (simp add: storedCart_def)
  have later: "\<forall>tc2 w2. \<not> nullish (tc_input tc2) \<and> \<not> truthy (optProp (tc_input tc2) ''cartId'')
             \<longrightarrow> (tc_name tc2 = ''place-order'' \<longrightarrow>
                    executeTool env tc2 conv tok st' w2 =
                      relay env st' w2 ''place-order''
                        [(''cartId'', JUndefined), (''userAccessToken'', tokenArg tok)])
               \<and> (tc_name tc2 = ''get-cart'' \<longrightarrow>
                    executeTool env tc2 conv tok st' w2 =
                      (Inr \<lparr> content = stringified env emptyCartMessage, isError = False \<rparr>,
                       st', w2))
               \<and> (tc_name tc2 = ''set-delivery-address'' \<longrightarrow>
                    executeTool env tc2 conv tok st' w2 =
                      (Inr \<lparr> content = stringified env noCartError, isError = True \<rparr>,
                       st', w2))"
  proof (intro allI impI conjI)
    fix tc2 :: ToolCall and w2 :: "'a world"
    assume a: "\<not> nullish (tc_input tc2) \<and> \<not> truthy (optProp (tc_input tc2) ''cartId'')"
    then have nn: "\<not> nullish (tc_input tc2)"
      and id2: "js_or (optProp (tc_input tc2) ''cartId'') (storedCart st' conv) = JUndefined"
      using none by (simp_all add: js_or_def)
    {
      assume n: "tc_name tc2 = ''place-order''"
      show "executeTool env tc2 conv tok st' w2 =
              relay env st' w2 ''place-order''
                [(''cartId'', JUndefined), (''userAccessToken'', tokenArg tok)]"
        unfolding executeTool_place_order [OF n nn] id2
        by (simp add: relay_def split: prod.splits)
    }
    {
      assume n: "tc_name tc2 = ''get-cart''"
      show "executeTool env tc2 conv tok st' w2 =
              (Inr \<lparr> content = stringified env emptyCartMessage, isError = False \<rparr>, st', w2)"
        using executeTool_get_cart_none [OF n nn, of st' conv env tok w2] id2 by simp
    }
    {
      assume n: "tc_name tc2 = ''set-delivery-address''"
      show "executeTool env tc2 conv tok st' w2 =
              (Inr \<lparr> content = stringified env noCartError, isError = True \<rparr>, st', w2)"
        unfolding executeTool_set_delivery_address [OF n nn] using none by simp
    }
  qed
  from out w' callTool_calls [OF ct] cleared later show ?thesis by blast
qed

lemma stale_order_run:
  "executeTool (shopEnv [] []) orderCall ''conv'' None (cartState ''stale'') world0
     = (Inr \<lparr> content = JStr ''Error: Cart not found'', isError = True \<rparr>,
        (cartState ''stale'') \<lparr> cartsByConversation := Map.empty \<rparr>,
        \<lparr> backend = (),
          calls = [(\<lparr> mc_name = ''place-order'',
                      mc_arguments = JObj [(''cartId'', JStr ''stale''),
                                           (''userAccessToken'', JUndefined)] \<rparr>,
                    \<lparr> content = JStr ''Error: Cart not found'', isError = True \<rparr>)] \<rparr>)"
  by (simp add: exec_simps)

theorem place_order_clears_cart_on_error_witness:
  "isError (\<lparr> content = JStr ''Error: Cart not found'', isError = True \<rparr>)
   \<and> cartsByConversation (cartState ''stale'') ''conv'' = Some (JStr ''stale'')
   \<and> cartsByConversation
        (fst (snd (executeTool (shopEnv [] []) orderCall ''conv'' None (cartState ''stale'') world0)))
        ''conv'' = None
   \<and> map callSummary
        (calls (snd (snd (executeMCPTools (shopEnv [] []) [orderCall, orderCall] ''conv'' None
                            (cartState ''stale'') world0))))
       = [(''place-order'', JStr ''stale'', True), (''place-order'', JUndefined, True)]"
proof -
  have po: "tc_name orderCall = ''place-order''" by (simp add: orderCall_def)
  have obj: "\<not> nullish (tc_input orderCall)" by (simp add: orderCall_def)
  have resolved: "truthy (js_or (optProp (tc_input orderCall) ''cartId'')
                           (storedCart (cartState ''stale'') ''conv''))"
    by (simp add: orderCall_def js_or_def storedCart_def cartState_def)
  note inst = place_order_clears_cart_on_error [OF po obj resolved stale_order_run]
  have before: "cartsByConversation (cartState ''stale'') ''conv'' = Some (JStr ''stale'')"
    by (simp add: cartState_def)
  have twice: "map callSummary
        (calls (snd (snd (executeMCPTools (shopEnv [] []) [orderCall, orderCall] ''conv'' None
                            (cartState ''stale'') world0))))
       = [(''place-order'', JStr ''stale'', True), (''place-order'', JUndefined, True)]"
    by (simp add: exec_simps)
  from inst before twice stale_order_run show ?thesis by simp
qed

theorem place_order_reuse_counterexample:
  "map callSummary
     (calls (snd (snd (executeMCPTools (shopEnv [] []) [orderCall, reorderCall] ''conv'' None
                         (cartState ''stale'') world0))))
   = [(''place-order'', JStr ''stale'', True), (''place-order'', JStr ''stale'', True)]"
  by (simp add: exec_simps)

end
